theory Spec2Isabelle
  imports Main "HOL-Library.Sublist"
begin

section \<open>Python values, library calls and the trace of a run\<close>

text \<open>
  The notebook \<^verbatim>\<open>redis-llm-doc-chat.ipynb\<close> is a script whose cells read the process
  environment and call into imported libraries (langchain, llama_index, redis, logging,
  dotenv). The libraries are not part of the repository, so they are a parameter of the
  model: a run is given a \<open>host\<close>, which holds the environment and a function that
  answers every library call, either with an exception or with a value. The values the
  libraries hand back are opaque (a type variable \<open>'v\<close>); the values the notebook
  builds itself are strings, integers, booleans, lists and dictionaries.

  Strings are byte strings: the Arabic literals of the notebook are written as their
  UTF-8 bytes.
\<close>

datatype 'v pyval =
    PNone
  | PStr string
  | PInt int
  | PBool bool
  | PObj 'v
  | PList "'v pyval list"
  | PDict "(string \<times> 'v pyval) list"

text \<open>The value of \<^verbatim>\<open>os.getenv(name)\<close> as a Python value: \<^verbatim>\<open>None\<close> or a \<^verbatim>\<open>str\<close>.\<close>

definition of_opt :: "string option \<Rightarrow> 'v pyval" where
  "of_opt v = (case v of None \<Rightarrow> PNone | Some s \<Rightarrow> PStr s)"

text \<open>
  A library call: \<open>Func f args kwargs\<close> is \<^verbatim>\<open>f(*args, **kwargs)\<close> for a function or
  class of a module, \<open>Method obj m args kwargs\<close> is \<^verbatim>\<open>obj.m(*args, **kwargs)\<close>,
  \<open>Attr obj a\<close> is \<^verbatim>\<open>obj.a\<close>, \<open>Item obj i\<close> is \<^verbatim>\<open>obj[i]\<close> and \<open>Name n\<close> reads the
  module attribute \<^verbatim>\<open>n\<close> (such as \<^verbatim>\<open>sys.stdout\<close>).
\<close>

datatype 'v call =
    Func string "'v pyval list" "(string \<times> 'v pyval) list"
  | Method 'v string "'v pyval list" "(string \<times> 'v pyval) list"
  | Attr 'v string
  | Item 'v int
  | Name string

text \<open>
  What a run leaves behind, in order: environment lookups with their result, library
  calls with their outcome (\<open>Inl\<close> an exception of the library, \<open>Inr\<close> the value
  returned), assignments to attributes of the \<^verbatim>\<open>openai\<close> module, lines printed, and
  the values a cell shows as its output (the value of its last line when that is an
  expression; the front end shows nothing when the value is \<^verbatim>\<open>None\<close>, a difference
  the trace does not record). Looking up a variable, assigning, printing and showing
  do not fail; every other step is a library call and may raise.
\<close>

datatype ('x, 'v) event =
    Getenv string "string option"
  | Call "'v call" "'x + 'v"
  | Assign string "'v pyval"
  | Print "'v pyval list"
  | Display 'v

text \<open>
  Exceptions: \<open>TypeError\<close> and \<open>ValueError\<close> are the two that the built-in
  \<^verbatim>\<open>int\<close> raises in the notebook's own code; \<open>Raised x\<close> is an exception \<open>x\<close> that a
  library call raised.
\<close>

datatype 'x exn = TypeError | ValueError | Raised 'x

record ('x, 'v) host =
  environ :: "string \<Rightarrow> string option"
  library :: "('x, 'v) event list \<Rightarrow> 'v call \<Rightarrow> 'x + 'v"

text \<open>
  A piece of the script takes the host and the trace so far, and returns the extended
  trace with either the exception that ended it or its value. The answer of the library
  may depend on everything that happened before.
\<close>

type_synonym ('x, 'v, 'a) prog =
  "('x, 'v) host \<Rightarrow> ('x, 'v) event list \<Rightarrow> ('x, 'v) event list \<times> ('x exn + 'a)"

definition ret :: "'a \<Rightarrow> ('x, 'v, 'a) prog" where
  "ret x = (\<lambda>h t. (t, Inr x))"

definition raise :: "'x exn \<Rightarrow> ('x, 'v, 'a) prog" where
  "raise e = (\<lambda>h t. (t, Inl e))"

text \<open>
  Sequencing of two statements: an exception of the first ends both. The notebook has no
  \<^verbatim>\<open>try\<close> statement, so sequencing is the only way its steps are combined.
\<close>

definition bind :: "('x, 'v, 'a) prog \<Rightarrow> ('a \<Rightarrow> ('x, 'v, 'b) prog) \<Rightarrow> ('x, 'v, 'b) prog" where
  "bind m f = (\<lambda>h t. case m h t of
                  (t', Inl e) \<Rightarrow> (t', Inl e)
                | (t', Inr x) \<Rightarrow> f x h t')"

definition getenv :: "string \<Rightarrow> ('x, 'v, string option) prog" where
  "getenv name = (\<lambda>h t. (t @ [Getenv name (environ h name)], Inr (environ h name)))"

text \<open>\<^verbatim>\<open>os.getenv(name, default)\<close> with a string default.\<close>

definition getenv_default :: "string \<Rightarrow> string \<Rightarrow> ('x, 'v, string) prog" where
  "getenv_default name d =
     bind (getenv name) (\<lambda>v. ret (case v of None \<Rightarrow> d | Some s \<Rightarrow> s))"

definition call :: "'v call \<Rightarrow> ('x, 'v, 'v) prog" where
  "call c = (\<lambda>h t. case library h t c of
                Inl x \<Rightarrow> (t @ [Call c (Inl x)], Inl (Raised x))
              | Inr v \<Rightarrow> (t @ [Call c (Inr v)], Inr v))"

definition assign :: "string \<Rightarrow> 'v pyval \<Rightarrow> ('x, 'v, unit) prog" where
  "assign name v = (\<lambda>h t. (t @ [Assign name v], Inr ()))"

definition print :: "'v pyval list \<Rightarrow> ('x, 'v, unit) prog" where
  "print args = (\<lambda>h t. (t @ [Print args], Inr ()))"

definition display :: "'v \<Rightarrow> ('x, 'v, unit) prog" where
  "display v = (\<lambda>h t. (t @ [Display v], Inr ()))"

section \<open>Built-ins used by the notebook's own code\<close>

text \<open>
  An f-string field \<^verbatim>\<open>{v}\<close> for \<open>v\<close> the result of \<^verbatim>\<open>os.getenv\<close>: the text of the
  string, or \<^verbatim>\<open>None\<close> when the variable is unset.
\<close>

definition py_format :: "string option \<Rightarrow> string" where
  "py_format v = (case v of None \<Rightarrow> ''None'' | Some s \<Rightarrow> s)"

text \<open>
  \<^verbatim>\<open>int(s)\<close> in base ten, as CPython 3.8 (the kernel the notebook names) computes it.
  \<^verbatim>\<open>int(None)\<close> raises \<^verbatim>\<open>TypeError\<close>. For a string, every character outside ASCII is
  first replaced: Unicode white space by a blank, a Unicode decimal digit by the ASCII
  digit of its value; any other such character makes the string invalid. Then white
  space around the literal is skipped (horizontal tab to carriage return, and the blank:
  the separators \<^verbatim>\<open>0x1C\<close> to \<^verbatim>\<open>0x1F\<close> are not skipped), one sign is allowed, and the
  digits may be grouped by single underscores. A string that is no such literal raises
  \<^verbatim>\<open>ValueError\<close>. Python 3.8 puts no bound on the number of digits.

  Strings are UTF-8 bytes, so the characters outside ASCII are decoded here. A byte that
  is not part of a well-formed UTF-8 sequence reaches Python as an escaped surrogate,
  which is neither white space nor a digit. The decimal digits of Unicode 12.1, the
  version of Python 3.8, come in blocks of ten consecutive code points with the values 0
  to 9; \<open>decimal_blocks\<close> lists the first code point of every block outside ASCII.
\<close>

definition is_space :: "char \<Rightarrow> bool" where
  "is_space c = (c \<in> set [CHR 0x09, CHR 0x0A, CHR 0x0B, CHR 0x0C, CHR 0x0D, CHR 0x20])"

definition unicode_space :: "nat \<Rightarrow> bool" where
  "unicode_space cp =
     (cp \<in> set [0x85, 0xA0, 0x1680, 0x2028, 0x2029, 0x202F, 0x205F, 0x3000]
      \<or> (0x2000 \<le> cp \<and> cp \<le> 0x200A))"

definition decimal_blocks :: "nat list" where
  "decimal_blocks =
     [
      0x0660, 0x06F0, 0x07C0, 0x0966, 0x09E6, 0x0A66, 0x0AE6, 0x0B66,
      0x0BE6, 0x0C66, 0x0CE6, 0x0D66, 0x0DE6, 0x0E50, 0x0ED0, 0x0F20,
      0x1040, 0x1090, 0x17E0, 0x1810, 0x1946, 0x19D0, 0x1A80, 0x1A90,
      0x1B50, 0x1BB0, 0x1C40, 0x1C50, 0xA620, 0xA8D0, 0xA900, 0xA9D0,
      0xA9F0, 0xAA50, 0xABF0, 0xFF10, 0x104A0, 0x10D30, 0x11066, 0x110F0,
      0x11136, 0x111D0, 0x112F0, 0x11450, 0x114D0, 0x11650, 0x116C0, 0x11730,
      0x118E0, 0x11C50, 0x11D50, 0x11DA0, 0x16A60, 0x16B50, 0x1D7CE, 0x1D7D8,
      0x1D7E2, 0x1D7EC, 0x1D7F6, 0x1E140, 0x1E2F0, 0x1E950]"

definition unicode_decimal :: "nat \<Rightarrow> nat option" where
  "unicode_decimal cp =
     (case filter (\<lambda>b. b \<le> cp \<and> cp < b + 10) decimal_blocks of
        [] \<Rightarrow> None
      | b # _ \<Rightarrow> Some (cp - b))"

text \<open>
  The code point of the well-formed UTF-8 sequence of two to four bytes at the head of a
  string, with the number of its bytes.
\<close>

definition utf8_char :: "string \<Rightarrow> (nat \<times> nat) option" where
  "utf8_char s =
     (case map of_char (take 4 s) :: nat list of
        b0 # b1 # bs \<Rightarrow>
          if 0xC2 \<le> b0 \<and> b0 \<le> 0xDF \<and> 0x80 \<le> b1 \<and> b1 \<le> 0xBF
          then Some ((b0 - 0xC0) * 64 + (b1 - 0x80), 2)
          else (case bs of
                  b2 # bs' \<Rightarrow>
                    if 0xE0 \<le> b0 \<and> b0 \<le> 0xEF \<and> 0x80 \<le> b1 \<and> b1 \<le> 0xBF
                       \<and> 0x80 \<le> b2 \<and> b2 \<le> 0xBF
                    then (let cp = (b0 - 0xE0) * 4096 + (b1 - 0x80) * 64 + (b2 - 0x80)
                          in if 0x800 \<le> cp \<and> \<not> (0xD800 \<le> cp \<and> cp \<le> 0xDFFF)
                             then Some (cp, 3) else None)
                    else (case bs' of
                            b3 # _ \<Rightarrow>
                              if 0xF0 \<le> b0 \<and> b0 \<le> 0xF4 \<and> 0x80 \<le> b1 \<and> b1 \<le> 0xBF
                                 \<and> 0x80 \<le> b2 \<and> b2 \<le> 0xBF \<and> 0x80 \<le> b3 \<and> b3 \<le> 0xBF
                              then (let cp = (b0 - 0xF0) * 262144 + (b1 - 0x80) * 4096
                                             + (b2 - 0x80) * 64 + (b3 - 0x80)
                                    in if 0x10000 \<le> cp \<and> cp \<le> 0x10FFFF
                                       then Some (cp, 4) else None)
                              else None
                          | [] \<Rightarrow> None)
                | [] \<Rightarrow> None)
      | _ \<Rightarrow> None)"

text \<open>
  The replacement of the characters outside ASCII; \<open>None\<close> when the string has a
  character that is neither ASCII, nor white space, nor a decimal digit.
\<close>

fun to_ascii :: "string \<Rightarrow> string option" where
  "to_ascii [] = Some []"
| "to_ascii (c # cs) =
     (if of_char c < (127 :: nat) then map_option ((#) c) (to_ascii cs)
      else (case utf8_char (c # cs) of
              None \<Rightarrow> None
            | Some (cp, n) \<Rightarrow>
                if unicode_space cp
                then map_option ((#) (CHR '' '')) (to_ascii (drop (n - 1) cs))
                else (case unicode_decimal cp of
                        None \<Rightarrow> None
                      | Some d \<Rightarrow>
                          map_option ((#) (char_of (48 + d))) (to_ascii (drop (n - 1) cs)))))"

definition strip :: "string \<Rightarrow> string" where
  "strip s = rev (dropWhile is_space (rev (dropWhile is_space s)))"

definition is_digit :: "char \<Rightarrow> bool" where
  "is_digit c = (c \<in> set ''0123456789'')"

definition digit_val :: "char \<Rightarrow> nat" where
  "digit_val c = of_char c - of_char (CHR ''0'')"

fun py_digits :: "bool \<Rightarrow> nat \<Rightarrow> string \<Rightarrow> nat option" where
  "py_digits after_digit acc [] = (if after_digit then Some acc else None)"
| "py_digits after_digit acc (c # cs) =
     (if is_digit c then py_digits True (10 * acc + digit_val c) cs
      else if c = CHR ''_'' \<and> after_digit then py_digits False acc cs
      else None)"

definition parse_ascii :: "string \<Rightarrow> int option" where
  "parse_ascii a =
     (case strip a of
        [] \<Rightarrow> None
      | c # cs \<Rightarrow>
          if c = CHR ''-'' then map_option (\<lambda>n. - int n) (py_digits False 0 cs)
          else if c = CHR ''+'' then map_option int (py_digits False 0 cs)
          else map_option int (py_digits False 0 (c # cs)))"

definition py_int_str :: "string \<Rightarrow> int option" where
  "py_int_str s = (case to_ascii s of None \<Rightarrow> None | Some a \<Rightarrow> parse_ascii a)"

definition py_int :: "string option \<Rightarrow> 'x exn + int" where
  "py_int v =
     (case v of
        None \<Rightarrow> Inl TypeError
      | Some s \<Rightarrow> (case py_int_str s of None \<Rightarrow> Inl ValueError | Some n \<Rightarrow> Inr n))"

text \<open>The number a string of decimal digits stands for.\<close>

definition decimal :: "string \<Rightarrow> nat" where
  "decimal s = foldl (\<lambda>acc c. 10 * acc + digit_val c) 0 s"

text \<open>
  What \<^verbatim>\<open>int\<close> accepts, said without reference to how it scans: \<open>int_literal s n\<close>
  holds when \<open>s\<close>, with its characters outside ASCII replaced, is white space, an
  optional sign, a body and white space again, where the body consists of digits and
  underscores, begins and ends with a digit and has no two underscores in a row, and
  \<open>n\<close> is the number the digits of the body stand for, negated after a minus sign.
\<close>

definition digit_groups :: "string \<Rightarrow> bool" where
  "digit_groups body =
     (body \<noteq> [] \<and> (\<forall>c \<in> set body. is_digit c \<or> c = CHR ''_'')
      \<and> is_digit (hd body) \<and> is_digit (last body) \<and> \<not> sublist ''__'' body)"

definition int_literal :: "string \<Rightarrow> int \<Rightarrow> bool" where
  "int_literal s n =
     (\<exists>a pre sgn body post.
        to_ascii s = Some a \<and> a = pre @ sgn @ body @ post
        \<and> list_all is_space pre \<and> list_all is_space post
        \<and> sgn \<in> {[], ''+'', ''-''} \<and> digit_groups body
        \<and> n = (if sgn = ''-'' then - int (decimal (filter is_digit body))
                else int (decimal (filter is_digit body))))"

definition to_int :: "string option \<Rightarrow> ('x, 'v, int) prog" where
  "to_int v = (case py_int v of Inl e \<Rightarrow> raise e | Inr n \<Rightarrow> ret n)"

section \<open>The cells of the notebook\<close>

subsection \<open>Redis connection string\<close>

text \<open>
  \<^verbatim>\<open>
  def format_redis_conn_from_env(using_ssl=False):
      start = "rediss://" if using_ssl else "redis://"
      # if using RBAC
      password = os.getenv("REDIS_PASSWORD", None)
      username = os.getenv("REDIS_USERNAME", "default")
      if password != None:
          start += f"{username}:{password}@"

      return start + f"{os.getenv('REDIS_ADDRESS')}:{os.getenv('REDIS_PORT')}"
  \<close>
\<close>

definition format_redis_conn_from_env :: "bool \<Rightarrow> ('x, 'v, string) prog" where
  "format_redis_conn_from_env using_ssl =
     bind (ret (if using_ssl then ''rediss://'' else ''redis://'')) (\<lambda>start.
     bind (getenv ''REDIS_PASSWORD'') (\<lambda>password.
     bind (getenv_default ''REDIS_USERNAME'' ''default'') (\<lambda>username.
     bind (ret (if password \<noteq> None
                then start @ username @ '':'' @ py_format password @ ''@''
                else start)) (\<lambda>start.
     bind (getenv ''REDIS_ADDRESS'') (\<lambda>address.
     bind (getenv ''REDIS_PORT'') (\<lambda>port.
     ret (start @ py_format address @ '':'' @ py_format port)))))))"

subsection \<open>Logging and the \<^verbatim>\<open>.env\<close> file\<close>

text \<open>
  \<^verbatim>\<open>
  logging.basicConfig(stream=sys.stdout, level=logging.INFO)
  logging.getLogger().addHandler(logging.StreamHandler(stream=sys.stdout))
  \<close>
  The \<^verbatim>\<open>import\<close> statements of the cell only bind names and are not modelled; the
  \<^verbatim>\<open>%pip install\<close> cell before it is a shell command of the notebook front end.
\<close>

definition cell_logging :: "('x, 'v, unit) prog" where
  "cell_logging =
     bind (call (Name ''sys.stdout'')) (\<lambda>out.
     bind (call (Name ''logging.INFO'')) (\<lambda>level.
     bind (call (Func ''logging.basicConfig'' []
                   [(''stream'', PObj out), (''level'', PObj level)])) (\<lambda>_.
     bind (call (Func ''logging.getLogger'' [] [])) (\<lambda>logger.
     bind (call (Name ''sys.stdout'')) (\<lambda>out.
     bind (call (Func ''logging.StreamHandler'' [] [(''stream'', PObj out)])) (\<lambda>handler.
     bind (call (Method logger ''addHandler'' [PObj handler] [])) (\<lambda>_.
     ret ())))))))"

text \<open>
  \<^verbatim>\<open>load_dotenv('./.env')\<close>. The call merges the file into the process environment;
  \<open>environ\<close> of the host is the environment as the later cells see it.
\<close>

definition cell_dotenv :: "('x, 'v, unit) prog" where
  "cell_dotenv =
     bind (call (Func ''load_dotenv'' [PStr ''./.env''] [])) (\<lambda>loaded.
     display loaded)"

subsection \<open>Azure OpenAI settings\<close>

text \<open>
  \<^verbatim>\<open>
  openai.api_type = "azure"
  openai.api_base = os.getenv("AZURE_OPENAI_API_BASE")
  openai.api_version = "2022-12-01"
  openai.api_key = os.getenv("OPENAI_API_KEY")
  embedding_model = os.getenv("OPENAI_EMBEDDING_MODEL")
  text_model = os.getenv("OPENAI_TEXT_MODEL")
  print(f"Using models: {embedding_model} and {text_model}")
  embedding_model_deployment = os.getenv("AZURE_EMBED_MODEL_DEPLOYMENT_NAME")
  text_model_deployment = os.getenv("AZURE_TEXT_MODEL_DEPLOYMENT_NAME")
  print(f"Using deployments: {embedding_model_deployment} and {text_model_deployment}")
  \<close>
  The record holds what the cell binds; the next cell reads the four \<^verbatim>\<open>openai\<close>
  attributes back as they were assigned here.
\<close>

record settings =
  api_type :: string
  api_base :: "string option"
  api_version :: string
  api_key :: "string option"
  embedding_model :: "string option"
  text_model :: "string option"
  embedding_model_deployment :: "string option"
  text_model_deployment :: "string option"

definition cell_openai :: "('x, 'v, settings) prog" where
  "cell_openai =
     bind (assign ''openai.api_type'' (PStr ''azure'')) (\<lambda>_.
     bind (getenv ''AZURE_OPENAI_API_BASE'') (\<lambda>base.
     bind (assign ''openai.api_base'' (of_opt base)) (\<lambda>_.
     bind (assign ''openai.api_version'' (PStr ''2022-12-01'')) (\<lambda>_.
     bind (getenv ''OPENAI_API_KEY'') (\<lambda>key.
     bind (assign ''openai.api_key'' (of_opt key)) (\<lambda>_.
     bind (getenv ''OPENAI_EMBEDDING_MODEL'') (\<lambda>emb.
     bind (getenv ''OPENAI_TEXT_MODEL'') (\<lambda>txt.
     bind (print [PStr (''Using models: '' @ py_format emb @ '' and '' @ py_format txt)]) (\<lambda>_.
     bind (getenv ''AZURE_EMBED_MODEL_DEPLOYMENT_NAME'') (\<lambda>emb_dep.
     bind (getenv ''AZURE_TEXT_MODEL_DEPLOYMENT_NAME'') (\<lambda>txt_dep.
     bind (print [PStr (''Using deployments: '' @ py_format emb_dep
                         @ '' and '' @ py_format txt_dep)]) (\<lambda>_.
     ret \<lparr> api_type = ''azure'', api_base = base, api_version = ''2022-12-01'',
           api_key = key, embedding_model = emb, text_model = txt,
           embedding_model_deployment = emb_dep,
           text_model_deployment = txt_dep \<rparr>))))))))))))"

subsection \<open>Language model and embedding model\<close>

text \<open>
  \<^verbatim>\<open>
  llm = AzureOpenAI(deployment_name=text_model_deployment, model_kwargs={
      "api_key": openai.api_key,
      "api_base": openai.api_base,
      "api_type": openai.api_type,
      "api_version": openai.api_version,
  })
  llm_predictor = LLMPredictor(llm=llm)

  embedding_llm = LangchainEmbedding(
      OpenAIEmbeddings(
          model=embedding_model,
          deployment=embedding_model_deployment,
          openai_api_key= openai.api_key,
          openai_api_base=openai.api_base,
          openai_api_type=openai.api_type,
          openai_api_version=openai.api_version,
      ),
      embed_batch_size=1,
  )
  \<close>
\<close>

definition cell_models :: "settings \<Rightarrow> ('x, 'v, 'v \<times> 'v \<times> 'v) prog" where
  "cell_models cfg =
     bind (call (Func ''AzureOpenAI'' []
                   [(''deployment_name'', of_opt (text_model_deployment cfg)),
                    (''model_kwargs'', PDict
                       [(''api_key'', of_opt (api_key cfg)),
                        (''api_base'', of_opt (api_base cfg)),
                        (''api_type'', PStr (api_type cfg)),
                        (''api_version'', PStr (api_version cfg))])])) (\<lambda>llm.
     bind (call (Func ''LLMPredictor'' [] [(''llm'', PObj llm)])) (\<lambda>llm_predictor.
     bind (call (Func ''OpenAIEmbeddings'' []
                   [(''model'', of_opt (embedding_model cfg)),
                    (''deployment'', of_opt (embedding_model_deployment cfg)),
                    (''openai_api_key'', of_opt (api_key cfg)),
                    (''openai_api_base'', of_opt (api_base cfg)),
                    (''openai_api_type'', PStr (api_type cfg)),
                    (''openai_api_version'', PStr (api_version cfg))])) (\<lambda>embeddings.
     bind (call (Func ''LangchainEmbedding'' [PObj embeddings]
                   [(''embed_batch_size'', PInt 1)])) (\<lambda>embedding_llm.
     ret (llm, llm_predictor, embedding_llm)))))"

subsection \<open>Documents\<close>

text \<open>
  \<^verbatim>\<open>
  documents = SimpleDirectoryReader('./docs').load_data()
  print('Document ID:', documents[0].doc_id)
  \<close>
\<close>

definition cell_documents :: "('x, 'v, 'v) prog" where
  "cell_documents =
     bind (call (Func ''SimpleDirectoryReader'' [PStr ''./docs''] [])) (\<lambda>reader.
     bind (call (Method reader ''load_data'' [] [])) (\<lambda>documents.
     bind (call (Item documents 0)) (\<lambda>first.
     bind (call (Attr first ''doc_id'')) (\<lambda>doc_id.
     bind (print [PStr ''Document ID:'', PObj doc_id]) (\<lambda>_.
     ret documents)))))"

subsection \<open>Prompt helper and service context\<close>

text \<open>
  \<^verbatim>\<open>
  num_output = int(os.getenv("OPENAI_MAX_TOKENS"))
  max_input_size = int(os.getenv("CHUNK_SIZE"))
  max_chunk_overlap = int(os.getenv("CHUNK_OVERLAP"))

  prompt_helper = PromptHelper(max_input_size, num_output, max_chunk_overlap)
  \<close>
\<close>

definition cell_prompt_helper :: "('x, 'v, 'v) prog" where
  "cell_prompt_helper =
     bind (bind (getenv ''OPENAI_MAX_TOKENS'') to_int) (\<lambda>num_output.
     bind (bind (getenv ''CHUNK_SIZE'') to_int) (\<lambda>max_input_size.
     bind (bind (getenv ''CHUNK_OVERLAP'') to_int) (\<lambda>max_chunk_overlap.
     call (Func ''PromptHelper''
             [PInt max_input_size, PInt num_output, PInt max_chunk_overlap] []))))"

text \<open>
  \<^verbatim>\<open>
  service_context = ServiceContext.from_defaults(
      llm_predictor=llm_predictor,
      embed_model=embedding_llm,
  #    prompt_helper=prompt_helper # uncomment to use prompt_helper.
  )
  \<close>
\<close>

definition cell_service_context :: "'v \<Rightarrow> 'v \<Rightarrow> ('x, 'v, 'v) prog" where
  "cell_service_context llm_predictor embedding_llm =
     call (Func ''ServiceContext.from_defaults'' []
             [(''llm_predictor'', PObj llm_predictor), (''embed_model'', PObj embedding_llm)])"

subsection \<open>Redis vector store\<close>

text \<open>
  \<^verbatim>\<open>
  redis_address = format_redis_conn_from_env(using_ssl=False)

  print(f"Using Redis address: {redis_address}")
  vector_store = RedisVectorStore(
      index_name="chevy_docs",
      index_prefix="blog",
      redis_url=redis_address,
      overwrite=True
  )
  vector_store.client.ping()
  \<close>
\<close>

definition cell_redis :: "('x, 'v, 'v) prog" where
  "cell_redis =
     bind (format_redis_conn_from_env False) (\<lambda>redis_address.
     bind (print [PStr (''Using Redis address: '' @ redis_address)]) (\<lambda>_.
     bind (call (Func ''RedisVectorStore'' []
                   [(''index_name'', PStr ''chevy_docs''),
                    (''index_prefix'', PStr ''blog''),
                    (''redis_url'', PStr redis_address),
                    (''overwrite'', PBool True)])) (\<lambda>vector_store.
     bind (call (Attr vector_store ''client'')) (\<lambda>client.
     bind (call (Method client ''ping'' [] [])) (\<lambda>pong.
     bind (display pong) (\<lambda>_.
     ret vector_store))))))"

subsection \<open>Index construction\<close>

text \<open>
  \<^verbatim>\<open>
  storage_context = StorageContext.from_defaults(vector_store=vector_store)
  index = GPTVectorStoreIndex.from_documents(
      documents,
      storage_context=storage_context,
      service_context=service_context
  )
  \<close>
\<close>

definition cell_index :: "'v \<Rightarrow> 'v \<Rightarrow> 'v \<Rightarrow> ('x, 'v, 'v) prog" where
  "cell_index documents vector_store service_context =
     bind (call (Func ''StorageContext.from_defaults'' []
                   [(''vector_store'', PObj vector_store)])) (\<lambda>storage_context.
     call (Func ''GPTVectorStoreIndex.from_documents'' [PObj documents]
             [(''storage_context'', PObj storage_context),
              (''service_context'', PObj service_context)]))"

subsection \<open>Queries\<close>

text \<open>
  The three query cells share the two lines
  \<^verbatim>\<open>
  response = query_engine.query("...")
  print("\n", textwrap.fill(str(response), 100))
  \<close>
  with a different question each; \<open>ask\<close> is these two lines for a question \<open>q\<close>.
  The first of the cells builds the query engine before them:
  \<^verbatim>\<open>query_engine = index.as_query_engine()\<close>.
\<close>

definition ask :: "'v \<Rightarrow> string \<Rightarrow> ('x, 'v, 'v) prog" where
  "ask query_engine q =
     bind (call (Method query_engine ''query'' [PStr q] [])) (\<lambda>response.
     bind (call (Func ''str'' [PObj response] [])) (\<lambda>text.
     bind (call (Func ''textwrap.fill'' [PObj text, PInt 100] [])) (\<lambda>filled.
     bind (print [PStr [CHR 0x0A], PObj filled]) (\<lambda>_.
     ret response))))"

definition query1 :: string where
  "query1 =
     [
      CHR 0xD9, CHR 0x84, CHR 0xD9, CHR 0x85, CHR 0xD8, CHR 0xAD, CHR 0xD8, CHR 0xA9,
      CHR 0x20, CHR 0xD8, CHR 0xB9, CHR 0xD9, CHR 0x86, CHR 0x20, CHR 0xD8, CHR 0xAC,
      CHR 0xD9, CHR 0x87, CHR 0xD9, CHR 0x88, CHR 0xD8, CHR 0xAF, CHR 0x20, CHR 0xD8,
      CHR 0xA3, CHR 0xD9, CHR 0x84, CHR 0xD9, CHR 0x85, CHR 0xD8, CHR 0xA7, CHR 0xD9,
      CHR 0x86, CHR 0xD9, CHR 0x8A, CHR 0xD8, CHR 0xA7, CHR 0x20, CHR 0xD9, CHR 0x81,
      CHR 0xD9, CHR 0x8A, CHR 0x20, CHR 0xD8, CHR 0xAA, CHR 0xD8, CHR 0xB7, CHR 0xD9,
      CHR 0x88, CHR 0xD9, CHR 0x8A, CHR 0xD8, CHR 0xB1, CHR 0x20, CHR 0xD8, CHR 0xA7,
      CHR 0xD9, CHR 0x84, CHR 0xD8, CHR 0xB0, CHR 0xD9, CHR 0x83, CHR 0xD8, CHR 0xA7,
      CHR 0xD8, CHR 0xA1, CHR 0x20, CHR 0xD8, CHR 0xA7, CHR 0xD9, CHR 0x84, CHR 0xD8,
      CHR 0xA7, CHR 0xD8, CHR 0xB5, CHR 0xD8, CHR 0xB7, CHR 0xD9, CHR 0x86, CHR 0xD8,
      CHR 0xA7, CHR 0xD8, CHR 0xB9, CHR 0xD9, CHR 0x8A]"

definition query2 :: string where
  "query2 =
     [
      CHR 0xD9, CHR 0x85, CHR 0xD8, CHR 0xA7, CHR 0x20, CHR 0xD8, CHR 0xA7, CHR 0xD9,
      CHR 0x84, CHR 0xD8, CHR 0xAC, CHR 0xD9, CHR 0x87, CHR 0xD9, CHR 0x88, CHR 0xD8,
      CHR 0xAF, CHR 0x20, CHR 0xD8, CHR 0xA7, CHR 0xD9, CHR 0x84, CHR 0xD8, CHR 0xAA,
      CHR 0xD9, CHR 0x8A, CHR 0x20, CHR 0xD8, CHR 0xA8, CHR 0xD8, CHR 0xB0, CHR 0xD9,
      CHR 0x84, CHR 0xD8, CHR 0xAA, CHR 0xD9, CHR 0x87, CHR 0xD8, CHR 0xA7, CHR 0x20,
      CHR 0xD8, CHR 0xA7, CHR 0xD9, CHR 0x84, CHR 0xD8, CHR 0xB5, CHR 0xD9, CHR 0x8A,
      CHR 0xD9, CHR 0x86, CHR 0x20, CHR 0xD9, CHR 0x81, CHR 0xD9, CHR 0x8A, CHR 0x20,
      CHR 0xD8, CHR 0xAA, CHR 0xD8, CHR 0xB7, CHR 0xD9, CHR 0x88, CHR 0xD9, CHR 0x8A,
      CHR 0xD8, CHR 0xB1, CHR 0x20, CHR 0xD8, CHR 0xA7, CHR 0xD9, CHR 0x84, CHR 0xD8,
      CHR 0xB0, CHR 0xD9, CHR 0x83, CHR 0xD8, CHR 0xA7, CHR 0xD8, CHR 0xA1, CHR 0x20,
      CHR 0xD8, CHR 0xA7, CHR 0xD9, CHR 0x84, CHR 0xD8, CHR 0xA7, CHR 0xD8, CHR 0xB5,
      CHR 0xD8, CHR 0xB7, CHR 0xD9, CHR 0x86, CHR 0xD8, CHR 0xA7, CHR 0xD8, CHR 0xB9,
      CHR 0xD9, CHR 0x8A, CHR 0x3F]"

definition query3 :: string where
  "query3 =
     [
      CHR 0xD9, CHR 0x85, CHR 0xD8, CHR 0xA7, CHR 0xD9, CHR 0x87, CHR 0xD9, CHR 0x8A,
      CHR 0x20, CHR 0xD8, CHR 0xA7, CHR 0xD9, CHR 0x84, CHR 0xD8, CHR 0xAC, CHR 0xD9,
      CHR 0x87, CHR 0xD9, CHR 0x88, CHR 0xD8, CHR 0xAF, CHR 0x20, CHR 0xD8, CHR 0xA7,
      CHR 0xD9, CHR 0x84, CHR 0xD9, CHR 0x88, CHR 0xD8, CHR 0xB7, CHR 0xD9, CHR 0x86,
      CHR 0xD9, CHR 0x8A, CHR 0xD8, CHR 0xA9, CHR 0x20, CHR 0xD9, CHR 0x81, CHR 0xD9,
      CHR 0x8A, CHR 0x20, CHR 0xD9, CHR 0x85, CHR 0xD8, CHR 0xAC, CHR 0xD8, CHR 0xA7,
      CHR 0xD9, CHR 0x84, CHR 0x20, CHR 0xD8, CHR 0xA7, CHR 0xD9, CHR 0x84, CHR 0xD8,
      CHR 0xB0, CHR 0xD9, CHR 0x83, CHR 0xD8, CHR 0xA7, CHR 0xD8, CHR 0xA1, CHR 0x20,
      CHR 0xD8, CHR 0xA7, CHR 0xD9, CHR 0x84, CHR 0xD8, CHR 0xA7, CHR 0xD8, CHR 0xB5,
      CHR 0xD8, CHR 0xB7, CHR 0xD9, CHR 0x86, CHR 0xD8, CHR 0xA7, CHR 0xD8, CHR 0xB9,
      CHR 0xD9, CHR 0x8A, CHR 0x3F]"

definition cell_query :: "'v \<Rightarrow> ('x, 'v, 'v \<times> 'v) prog" where
  "cell_query index =
     bind (call (Method index ''as_query_engine'' [] [])) (\<lambda>query_engine.
     bind (ask query_engine query1) (\<lambda>response.
     ret (query_engine, response)))"

subsection \<open>Direct calls of the language model\<close>

text \<open>
  \<^verbatim>\<open>
  llm('...')
  llm_result = llm.generate(["...", "..."]*15)
  len(llm_result.generations)
  llm_result.generations[0]
  response
  \<close>
  Five cells follow the queries (the last is the single name \<^verbatim>\<open>response\<close>); each
  but the second shows its value.
\<close>

definition prompt1 :: string where
  "prompt1 =
     [
      CHR 0xD8, CHR 0xB9, CHR 0xD8, CHR 0xB7, CHR 0xD9, CHR 0x8A, CHR 0xD9, CHR 0x86,
      CHR 0xD9, CHR 0x8A, CHR 0x20, CHR 0xD9, CHR 0x86, CHR 0xD9, CHR 0x83, CHR 0xD8,
      CHR 0xAA, CHR 0xD8, CHR 0xA9]"

definition prompt2 :: string where
  "prompt2 =
     [
      CHR 0xD8, CHR 0xAE, CHR 0xD8, CHR 0xA8, CHR 0xD8, CHR 0xB1, CHR 0xD9, CHR 0x86,
      CHR 0xD9, CHR 0x8A, CHR 0x20, CHR 0xD9, CHR 0x86, CHR 0xD9, CHR 0x83, CHR 0xD8,
      CHR 0xAA, CHR 0xD8, CHR 0xA8, CHR 0xD8, CHR 0xA9]"

definition cell_llm :: "'v \<Rightarrow> ('x, 'v, unit) prog" where
  "cell_llm llm =
     bind (call (Method llm ''__call__'' [PStr prompt1] [])) (\<lambda>answer.
     display answer)"

definition cell_generate :: "'v \<Rightarrow> ('x, 'v, 'v) prog" where
  "cell_generate llm =
     call (Method llm ''generate''
             [PList (map PStr (concat (replicate 15 [prompt1, prompt2])))] [])"

definition cell_len :: "'v \<Rightarrow> ('x, 'v, unit) prog" where
  "cell_len llm_result =
     bind (call (Attr llm_result ''generations'')) (\<lambda>generations.
     bind (call (Func ''len'' [PObj generations] [])) (\<lambda>n.
     display n))"

definition cell_first :: "'v \<Rightarrow> ('x, 'v, unit) prog" where
  "cell_first llm_result =
     bind (call (Attr llm_result ''generations'')) (\<lambda>generations.
     bind (call (Item generations 0)) (\<lambda>generation.
     display generation))"

subsection \<open>The notebook, run from the first cell to the last\<close>

definition notebook :: "('x, 'v, unit) prog" where
  "notebook =
     bind cell_logging (\<lambda>_.
     bind cell_dotenv (\<lambda>_.
     bind cell_openai (\<lambda>cfg.
     bind (cell_models cfg) (\<lambda>(llm, llm_predictor, embedding_llm).
     bind cell_documents (\<lambda>documents.
     bind cell_prompt_helper (\<lambda>prompt_helper.
     bind (cell_service_context llm_predictor embedding_llm) (\<lambda>service_context.
     bind cell_redis (\<lambda>vector_store.
     bind (cell_index documents vector_store service_context) (\<lambda>index.
     bind (cell_query index) (\<lambda>(query_engine, response).
     bind (ask query_engine query2) (\<lambda>response.
     bind (ask query_engine query3) (\<lambda>response.
     bind (cell_llm llm) (\<lambda>_.
     bind (cell_generate llm) (\<lambda>llm_result.
     bind (cell_len llm_result) (\<lambda>_.
     bind (cell_first llm_result) (\<lambda>_.
     display response))))))))))))))))"

section \<open>Observations on traces\<close>

subsection \<open>The operations of a run\<close>

text \<open>
  The step of an event: the name of the operation with its positional string arguments.
  Objects, keyword arguments and outcomes are left out, so the step of an event says
  which line of the notebook produced it, whatever the library answered.
\<close>

fun text_args :: "'v pyval list \<Rightarrow> string list" where
  "text_args [] = []"
| "text_args (PStr s # args) = s # text_args args"
| "text_args (_ # args) = text_args args"

fun call_step :: "'v call \<Rightarrow> string \<times> string list" where
  "call_step (Func f args kwargs) = (f, text_args args)"
| "call_step (Method obj m args kwargs) = (CHR ''.'' # m, text_args args)"
| "call_step (Attr obj a) = (CHR ''.'' # a, [])"
| "call_step (Item obj i) = (''[]'', [])"
| "call_step (Name n) = (n, [])"

fun step :: "('x, 'v) event \<Rightarrow> string \<times> string list" where
  "step (Getenv name v) = (''os.getenv'', [name])"
| "step (Call c r) = call_step c"
| "step (Assign name v) = (name @ '' ='', [])"
| "step (Print args) = (''print'', [])"
| "step (Display v) = (''display'', [])"

text \<open>The steps of each cell, in the order of its source lines.\<close>

definition steps_logging :: "(string \<times> string list) list" where
  "steps_logging =
     [(''sys.stdout'', []), (''logging.INFO'', []), (''logging.basicConfig'', []),
      (''logging.getLogger'', []), (''sys.stdout'', []), (''logging.StreamHandler'', []),
      (''.addHandler'', [])]"

definition steps_dotenv :: "(string \<times> string list) list" where
  "steps_dotenv = [(''load_dotenv'', [''./.env'']), (''display'', [])]"

definition steps_openai :: "(string \<times> string list) list" where
  "steps_openai =
     [(''openai.api_type ='', []),
      (''os.getenv'', [''AZURE_OPENAI_API_BASE'']), (''openai.api_base ='', []),
      (''openai.api_version ='', []),
      (''os.getenv'', [''OPENAI_API_KEY'']), (''openai.api_key ='', []),
      (''os.getenv'', [''OPENAI_EMBEDDING_MODEL'']),
      (''os.getenv'', [''OPENAI_TEXT_MODEL'']),
      (''print'', []),
      (''os.getenv'', [''AZURE_EMBED_MODEL_DEPLOYMENT_NAME'']),
      (''os.getenv'', [''AZURE_TEXT_MODEL_DEPLOYMENT_NAME'']),
      (''print'', [])]"

definition steps_models :: "(string \<times> string list) list" where
  "steps_models =
     [(''AzureOpenAI'', []), (''LLMPredictor'', []), (''OpenAIEmbeddings'', []),
      (''LangchainEmbedding'', [])]"

definition steps_documents :: "(string \<times> string list) list" where
  "steps_documents =
     [(''SimpleDirectoryReader'', [''./docs'']), (''.load_data'', []), (''[]'', []),
      (''.doc_id'', []), (''print'', [])]"

definition steps_prompt_helper :: "(string \<times> string list) list" where
  "steps_prompt_helper =
     [(''os.getenv'', [''OPENAI_MAX_TOKENS'']), (''os.getenv'', [''CHUNK_SIZE'']),
      (''os.getenv'', [''CHUNK_OVERLAP'']), (''PromptHelper'', [])]"

definition steps_service_context :: "(string \<times> string list) list" where
  "steps_service_context = [(''ServiceContext.from_defaults'', [])]"

definition steps_format_redis :: "(string \<times> string list) list" where
  "steps_format_redis =
     [(''os.getenv'', [''REDIS_PASSWORD'']), (''os.getenv'', [''REDIS_USERNAME'']),
      (''os.getenv'', [''REDIS_ADDRESS'']), (''os.getenv'', [''REDIS_PORT''])]"

definition steps_redis :: "(string \<times> string list) list" where
  "steps_redis =
     steps_format_redis @
     [(''print'', []), (''RedisVectorStore'', []), (''.client'', []), (''.ping'', []),
      (''display'', [])]"

definition steps_index :: "(string \<times> string list) list" where
  "steps_index =
     [(''StorageContext.from_defaults'', []), (''GPTVectorStoreIndex.from_documents'', [])]"

definition steps_ask :: "string \<Rightarrow> (string \<times> string list) list" where
  "steps_ask q = [(''.query'', [q]), (''str'', []), (''textwrap.fill'', []), (''print'', [])]"

definition steps_query :: "(string \<times> string list) list" where
  "steps_query = (''.as_query_engine'', []) # steps_ask query1"

definition steps_llm :: "(string \<times> string list) list" where
  "steps_llm = [(''.__call__'', [prompt1]), (''display'', [])]"

definition steps_generate :: "(string \<times> string list) list" where
  "steps_generate = [(''.generate'', [])]"

definition steps_len :: "(string \<times> string list) list" where
  "steps_len = [(''.generations'', []), (''len'', []), (''display'', [])]"

definition steps_first :: "(string \<times> string list) list" where
  "steps_first = [(''.generations'', []), (''[]'', []), (''display'', [])]"

text \<open>
  The steps of the whole notebook: the cells up to the one that builds the index, then
  the cells that use the index and the language model.
\<close>

definition steps_build :: "(string \<times> string list) list" where
  "steps_build =
     steps_logging @ steps_dotenv @ steps_openai @ steps_models @ steps_documents @
     steps_prompt_helper @ steps_service_context @ steps_redis @ steps_index"

definition steps_use :: "(string \<times> string list) list" where
  "steps_use =
     steps_query @ steps_ask query2 @ steps_ask query3 @
     steps_llm @ steps_generate @ steps_len @ steps_first @ [(''display'', [])]"

definition script :: "(string \<times> string list) list" where
  "script = steps_build @ steps_use"

text \<open>
  A piece of the script performs the steps \<open>L\<close> when every run of it only appends to the
  trace, appends exactly the steps \<open>L\<close> when it returns, and a beginning of \<open>L\<close> when
  an exception ends it.
\<close>

definition performs :: "('x, 'v, 'a) prog \<Rightarrow> (string \<times> string list) list \<Rightarrow> bool" where
  "performs m L =
     (\<forall>h t. \<exists>new. fst (m h t) = t @ new \<and>
        (case snd (m h t) of
           Inr _ \<Rightarrow> map step new = L
         | Inl _ \<Rightarrow> prefix (map step new) L))"

text \<open>The questions handed to \<^verbatim>\<open>query_engine.query\<close>, read off the steps of a trace.\<close>

definition questions :: "(string \<times> string list) list \<Rightarrow> string list list" where
  "questions L = map snd (filter (\<lambda>s. fst s = ''.query'') L)"

subsection \<open>Stages of the pipeline\<close>

text \<open>
  The stage a step belongs to: 0 for logging, the \<^verbatim>\<open>.env\<close> file, the OpenAI settings
  and the two models; 1 for loading the documents; 2 for the prompt helper, the service
  context and the Redis store; 3 for building the index; 4 for the queries. Printing,
  showing a value, indexing and the direct calls of the language model belong to no stage.
\<close>

definition stage :: "string \<times> string list \<Rightarrow> nat option" where
  "stage s =
     (if fst s \<in> set [''sys.stdout'', ''logging.INFO'', ''logging.basicConfig'',
                       ''logging.getLogger'', ''logging.StreamHandler'', ''.addHandler'',
                       ''load_dotenv'', ''openai.api_type ='', ''openai.api_base ='',
                       ''openai.api_version ='', ''openai.api_key ='',
                       ''AzureOpenAI'', ''LLMPredictor'', ''OpenAIEmbeddings'',
                       ''LangchainEmbedding'']
         \<or> (fst s = ''os.getenv'' \<and>
             snd s \<in> set [[''AZURE_OPENAI_API_BASE''], [''OPENAI_API_KEY''],
                           [''OPENAI_EMBEDDING_MODEL''], [''OPENAI_TEXT_MODEL''],
                           [''AZURE_EMBED_MODEL_DEPLOYMENT_NAME''],
                           [''AZURE_TEXT_MODEL_DEPLOYMENT_NAME'']])
      then Some 0
      else if fst s \<in> set [''SimpleDirectoryReader'', ''.load_data'', ''.doc_id'']
      then Some 1
      else if fst s \<in> set [''PromptHelper'', ''ServiceContext.from_defaults'',
                            ''RedisVectorStore'', ''.client'', ''.ping'']
         \<or> (fst s = ''os.getenv'' \<and>
             snd s \<in> set [[''OPENAI_MAX_TOKENS''], [''CHUNK_SIZE''], [''CHUNK_OVERLAP''],
                           [''REDIS_PASSWORD''], [''REDIS_USERNAME''],
                           [''REDIS_ADDRESS''], [''REDIS_PORT'']])
      then Some 2
      else if fst s \<in> set [''StorageContext.from_defaults'',
                            ''GPTVectorStoreIndex.from_documents'']
      then Some 3
      else if fst s \<in> set [''.as_query_engine'', ''.query'', ''str'', ''textwrap.fill'']
      then Some 4
      else None)"

definition stages :: "('x, 'v) event list \<Rightarrow> nat list" where
  "stages t = List.map_filter stage (map step t)"

subsection \<open>Failed calls\<close>

definition failure :: "('x, 'v) event \<Rightarrow> 'x option" where
  "failure e = (case e of Call c (Inl x) \<Rightarrow> Some x | _ \<Rightarrow> None)"

definition failures :: "('x, 'v) event list \<Rightarrow> 'x list" where
  "failures t = List.map_filter failure t"

text \<open>
  A piece of the script propagates exceptions when, in every run of it, an exception of
  a library call is the last event and the result of the run, and a run that ends in
  any other way has no failed call at all.
\<close>

definition propagates :: "('x, 'v, 'a) prog \<Rightarrow> bool" where
  "propagates m =
     (\<forall>h t. \<exists>new. fst (m h t) = t @ new \<and>
        (case snd (m h t) of
           Inl (Raised x) \<Rightarrow>
             new \<noteq> [] \<and> failure (last new) = Some x \<and> failures (butlast new) = []
         | _ \<Rightarrow> failures new = []))"

subsection \<open>Where objects come from\<close>

text \<open>
  The objects an event hands to the library or to the output, and the object a
  successful call hands back.
\<close>

fun uses :: "('x, 'v) event \<Rightarrow> 'v set" where
  "uses (Getenv name v) = {}"
| "uses (Call c r) = set_call c"
| "uses (Assign name v) = set_pyval v"
| "uses (Print args) = \<Union> (set_pyval ` set args)"
| "uses (Display v) = {v}"

fun yields :: "('x, 'v) event \<Rightarrow> 'v set" where
  "yields (Call c (Inr v)) = {v}"
| "yields _ = {}"

text \<open>
  \<open>sourced known t\<close>: every object used by an event of \<open>t\<close> is in \<open>known\<close> or was
  handed back by an earlier call of \<open>t\<close>.
\<close>

fun sourced :: "'v set \<Rightarrow> ('x, 'v) event list \<Rightarrow> bool" where
  "sourced known [] = True"
| "sourced known (e # t) = (uses e \<subseteq> known \<and> sourced (known \<union> yields e) t)"

definition keeps_source :: "'v set \<Rightarrow> ('x, 'v, 'a) prog \<Rightarrow> bool" where
  "keeps_source S m =
     (\<forall>h t known. S \<subseteq> known \<longrightarrow> (\<exists>new. fst (m h t) = t @ new \<and> sourced known new))"

section \<open>Two hosts to run the notebook on\<close>

text \<open>
  An environment that gives the output recorded in the notebook (the printed model and
  deployment names, and the address \<^verbatim>\<open>redis://default:@localhost:6379\<close>), with a
  library that answers every call with a fresh object; and the same environment without
  \<^verbatim>\<open>OPENAI_API_KEY\<close>, with a library that rejects the request when the index is built.
\<close>

definition demo_bindings :: "(string \<times> string) list" where
  "demo_bindings =
     [(''AZURE_OPENAI_API_BASE'', ''https://example.openai.azure.com/''),
      (''OPENAI_API_KEY'', ''0123456789abcdef''),
      (''OPENAI_EMBEDDING_MODEL'', ''text-embedding-ada-002''),
      (''OPENAI_TEXT_MODEL'', ''gpt-35-turbo''),
      (''AZURE_EMBED_MODEL_DEPLOYMENT_NAME'', ''embedding-model''),
      (''AZURE_TEXT_MODEL_DEPLOYMENT_NAME'', ''gpt35-model''),
      (''OPENAI_MAX_TOKENS'', ''256''),
      (''CHUNK_SIZE'', ''1024''),
      (''CHUNK_OVERLAP'', ''20''),
      (''REDIS_ADDRESS'', ''localhost''),
      (''REDIS_PORT'', ''6379''),
      (''REDIS_PASSWORD'', '''')]"

definition demo_host :: "(nat, nat) host" where
  "demo_host = \<lparr> environ = map_of demo_bindings, library = (\<lambda>t c. Inr (length t)) \<rparr>"

text \<open>The first environment with a variable \<^verbatim>\<open>REDIS_URL\<close> added.\<close>

definition url_bindings :: "(string \<times> string) list" where
  "url_bindings = (''REDIS_URL'', ''redis://example.com:7000'') # demo_bindings"

definition url_host :: "(nat, nat) host" where
  "url_host = \<lparr> environ = map_of url_bindings, library = (\<lambda>t c. Inr (length t)) \<rparr>"

definition nokey_host :: "(nat, nat) host" where
  "nokey_host =
     \<lparr> environ = (map_of demo_bindings)(''OPENAI_API_KEY'' := None),
       library = (\<lambda>t c. if fst (call_step c) = ''GPTVectorStoreIndex.from_documents''
                         then Inl 401 else Inr (length t)) \<rparr>"

section \<open>The Redis connection string\<close>

lemmas prims = bind_def ret_def raise_def call_def getenv_def getenv_default_def assign_def
  print_def display_def to_int_def

lemma format_redis_conn_from_env_run:
  "format_redis_conn_from_env using_ssl h t =
     (t @ [Getenv ''REDIS_PASSWORD'' (environ h ''REDIS_PASSWORD''),
           Getenv ''REDIS_USERNAME'' (environ h ''REDIS_USERNAME''),
           Getenv ''REDIS_ADDRESS'' (environ h ''REDIS_ADDRESS''),
           Getenv ''REDIS_PORT'' (environ h ''REDIS_PORT'')],
      Inr ((if using_ssl then ''rediss://'' else ''redis://'') @
           (case environ h ''REDIS_PASSWORD'' of
              None \<Rightarrow> []
            | Some p \<Rightarrow> (case environ h ''REDIS_USERNAME'' of None \<Rightarrow> ''default'' | Some u \<Rightarrow> u)
                         @ '':'' @ p @ ''@'') @
           py_format (environ h ''REDIS_ADDRESS'') @ '':'' @ py_format (environ h ''REDIS_PORT'')))"
  by (simp add: format_redis_conn_from_env_def prims py_format_def split: option.splits)

text \<open>
  Claim C2. For every environment and either value of \<open>using_ssl\<close>,
  \<^verbatim>\<open>format_redis_conn_from_env\<close> returns a string (it never raises) that begins with
  \<^verbatim>\<open>rediss://\<close> when \<open>using_ssl\<close> is true and with \<^verbatim>\<open>redis://\<close> (and not
  \<^verbatim>\<open>rediss://\<close>) otherwise, and that ends with the value of \<^verbatim>\<open>REDIS_ADDRESS\<close>, a
  colon and the value of \<^verbatim>\<open>REDIS_PORT\<close>. The value of an unset variable is
  \<^verbatim>\<open>None\<close>, which the f-string renders as the text \<^verbatim>\<open>None\<close>.
\<close>

theorem format_redis_conn_scheme_and_endpoint:
  "\<exists>url. snd (format_redis_conn_from_env using_ssl h t) = Inr url
     \<and> prefix (if using_ssl then ''rediss://'' else ''redis://'') url
     \<and> (using_ssl \<or> \<not> prefix ''rediss://'' url)
     \<and> suffix (py_format (environ h ''REDIS_ADDRESS'') @ '':''
                 @ py_format (environ h ''REDIS_PORT'')) url
     \<and> (\<forall>a p. environ h ''REDIS_ADDRESS'' = Some a \<and> environ h ''REDIS_PORT'' = Some p
            \<longrightarrow> suffix (a @ '':'' @ p) url)"
proof -
  let ?scheme = "if using_ssl then ''rediss://'' else ''redis://''"
  let ?end = "py_format (environ h ''REDIS_ADDRESS'') @ '':'' @ py_format (environ h ''REDIS_PORT'')"
  obtain mid where url: "snd (format_redis_conn_from_env using_ssl h t) = Inr (?scheme @ mid @ ?end)"
    by (simp add: format_redis_conn_from_env_run)
  have "prefix ?scheme (?scheme @ mid @ ?end)" by simp
  moreover have "using_ssl \<or> \<not> prefix ''rediss://'' (?scheme @ mid @ ?end)" by simp
  moreover have s: "suffix ?end (?scheme @ mid @ ?end)"
    unfolding suffix_def by (intro exI[of _ "?scheme @ mid"]) simp
  moreover have "\<forall>a p. environ h ''REDIS_ADDRESS'' = Some a \<and> environ h ''REDIS_PORT'' = Some p
            \<longrightarrow> suffix (a @ '':'' @ p) (?scheme @ mid @ ?end)"
    using s by (auto simp: py_format_def)
  ultimately show ?thesis using url by blast
qed

theorem format_redis_conn_scheme_and_endpoint_witness:
  "snd (format_redis_conn_from_env False demo_host []) = Inr ''redis://default:@localhost:6379''
   \<and> prefix ''redis://'' ''redis://default:@localhost:6379''
   \<and> \<not> prefix ''rediss://'' ''redis://default:@localhost:6379''
   \<and> suffix ''localhost:6379'' ''redis://default:@localhost:6379''"
  using format_redis_conn_scheme_and_endpoint [of False demo_host "[]"]
  by (simp add: format_redis_conn_from_env_run demo_host_def demo_bindings_def py_format_def
        suffix_to_prefix)

text \<open>
  Claim C3. The credentials segment \<^verbatim>\<open>username:password@\<close> stands between the
  scheme and the address exactly when \<^verbatim>\<open>REDIS_PASSWORD\<close> is set, the empty string
  included; the user name is \<^verbatim>\<open>default\<close> when \<^verbatim>\<open>REDIS_USERNAME\<close> is unset, so
  an empty password gives \<^verbatim>\<open>redis://default:@address:port\<close>; with the password unset
  the result is the scheme followed by address and port, with nothing in between.
\<close>

theorem format_redis_conn_credentials:
  "(environ h ''REDIS_PASSWORD'' = None \<longrightarrow>
      snd (format_redis_conn_from_env using_ssl h t) =
        Inr ((if using_ssl then ''rediss://'' else ''redis://'')
             @ py_format (environ h ''REDIS_ADDRESS'') @ '':''
             @ py_format (environ h ''REDIS_PORT'')))
   \<and> (\<forall>p. environ h ''REDIS_PASSWORD'' = Some p \<longrightarrow>
      snd (format_redis_conn_from_env using_ssl h t) =
        Inr ((if using_ssl then ''rediss://'' else ''redis://'')
             @ (case environ h ''REDIS_USERNAME'' of None \<Rightarrow> ''default'' | Some u \<Rightarrow> u)
             @ '':'' @ p @ ''@''
             @ py_format (environ h ''REDIS_ADDRESS'') @ '':''
             @ py_format (environ h ''REDIS_PORT'')))
   \<and> (\<forall>a p. environ h ''REDIS_PASSWORD'' = Some '''' \<and> environ h ''REDIS_USERNAME'' = None
             \<and> environ h ''REDIS_ADDRESS'' = Some a \<and> environ h ''REDIS_PORT'' = Some p
      \<longrightarrow> snd (format_redis_conn_from_env False h t) = Inr (''redis://default:@'' @ a @ '':'' @ p))"
  by (simp add: format_redis_conn_from_env_run py_format_def)

theorem format_redis_conn_credentials_witness:
  "environ demo_host ''REDIS_PASSWORD'' = Some ''''
   \<and> environ demo_host ''REDIS_USERNAME'' = None
   \<and> environ demo_host ''REDIS_ADDRESS'' = Some ''localhost''
   \<and> environ demo_host ''REDIS_PORT'' = Some ''6379''
   \<and> snd (format_redis_conn_from_env False demo_host []) = Inr ''redis://default:@localhost:6379''
   \<and> environ (demo_host\<lparr>environ := (environ demo_host)(''REDIS_PASSWORD'' := None)\<rparr>)
        ''REDIS_PASSWORD'' = None
   \<and> snd (format_redis_conn_from_env True
             (demo_host\<lparr>environ := (environ demo_host)(''REDIS_PASSWORD'' := None)\<rparr>) [])
       = Inr ''rediss://localhost:6379''"
  using format_redis_conn_credentials [of demo_host False "[]"]
    format_redis_conn_credentials
      [of "demo_host\<lparr>environ := (environ demo_host)(''REDIS_PASSWORD'' := None)\<rparr>" True "[]"]
  by (simp add: demo_host_def demo_bindings_def py_format_def)

lemmas cells = cell_logging_def cell_dotenv_def cell_openai_def cell_models_def cell_documents_def
  cell_prompt_helper_def cell_service_context_def cell_redis_def
  cell_index_def cell_query_def ask_def cell_llm_def cell_generate_def cell_len_def cell_first_def

section \<open>The steps of each cell\<close>

lemma performs_bind:
  assumes "performs m L1" and "\<And>x. performs (f x) L2"
  shows "performs (bind m f) (L1 @ L2)"
  unfolding performs_def
proof (intro allI)
  fix h t
  from assms(1) obtain new1 where m1: "fst (m h t) = t @ new1"
    and r1: "case snd (m h t) of Inr _ \<Rightarrow> map step new1 = L1
                               | Inl _ \<Rightarrow> prefix (map step new1) L1"
    unfolding performs_def by blast
  show "\<exists>new. fst (bind m f h t) = t @ new \<and>
      (case snd (bind m f h t) of Inr _ \<Rightarrow> map step new = L1 @ L2
                         | Inl _ \<Rightarrow> prefix (map step new) (L1 @ L2))"
  proof (cases "snd (m h t)")
    case (Inl e)
    then have "bind m f h t = (t @ new1, Inl e)"
      using m1 by (cases "m h t") (auto simp: bind_def)
    with r1 Inl show ?thesis by auto
  next
    case (Inr x)
    from assms(2)[of x] obtain new2 where m2: "fst (f x h (t @ new1)) = (t @ new1) @ new2"
      and r2: "case snd (f x h (t @ new1)) of Inr _ \<Rightarrow> map step new2 = L2
                               | Inl _ \<Rightarrow> prefix (map step new2) L2"
      unfolding performs_def by blast
    from Inr m1 have b: "bind m f h t = f x h (t @ new1)"
      by (cases "m h t") (auto simp: bind_def)
    from Inr r1 have c1: "map step new1 = L1" by simp
    show ?thesis
      using m2 r2 c1 unfolding b
      by (intro exI[of _ "new1 @ new2"]) (auto split: sum.splits)
  qed
qed

lemma performs_split: "(\<And>a b. performs (f a b) L) \<Longrightarrow> performs (case_prod f p) L"
  by (cases p) simp

lemma performs_display: "performs (display v) [(''display'', [])]"
  by (simp add: performs_def display_def)

lemma cell_logging_performs: "performs cell_logging steps_logging"
  unfolding cell_logging_def performs_def steps_logging_def prims
  by (auto split: sum.splits)

lemma cell_dotenv_performs: "performs cell_dotenv steps_dotenv"
  unfolding cell_dotenv_def performs_def steps_dotenv_def prims
  by (auto split: sum.splits)

lemma cell_openai_performs: "performs cell_openai steps_openai"
  unfolding cell_openai_def performs_def steps_openai_def prims
  by (auto split: sum.splits)

lemma cell_models_performs: "performs (cell_models cfg) steps_models"
  unfolding cell_models_def performs_def steps_models_def prims
  by (auto simp: of_opt_def split: sum.splits option.splits)

lemma cell_documents_performs: "performs cell_documents steps_documents"
  unfolding cell_documents_def performs_def steps_documents_def prims
  by (auto split: sum.splits)

lemma cell_prompt_helper_performs: "performs cell_prompt_helper steps_prompt_helper"
  unfolding cell_prompt_helper_def performs_def steps_prompt_helper_def prims
  by (auto split: sum.splits)

lemma cell_service_context_performs:
  "performs (cell_service_context llm_predictor embedding_llm) steps_service_context"
  unfolding cell_service_context_def performs_def steps_service_context_def prims
  by (auto split: sum.splits)

lemma format_redis_conn_from_env_performs:
  "performs (format_redis_conn_from_env using_ssl) steps_format_redis"
  unfolding performs_def steps_format_redis_def
  by (simp add: format_redis_conn_from_env_run)

lemma cell_redis_performs: "performs cell_redis steps_redis"
  unfolding cell_redis_def performs_def steps_redis_def steps_format_redis_def bind_def
  by (auto simp: format_redis_conn_from_env_run call_def print_def display_def ret_def
           split: sum.splits)

lemma cell_index_performs:
  "performs (cell_index documents vector_store service_context) steps_index"
  unfolding cell_index_def performs_def steps_index_def prims
  by (auto split: sum.splits)

lemma ask_performs: "performs (ask query_engine q) (steps_ask q)"
  unfolding ask_def performs_def steps_ask_def prims
  by (auto split: sum.splits)

lemma cell_query_performs: "performs (cell_query index) steps_query"
  unfolding cell_query_def performs_def steps_query_def steps_ask_def ask_def prims
  by (auto split: sum.splits)

lemma cell_llm_performs: "performs (cell_llm llm) steps_llm"
  unfolding cell_llm_def performs_def steps_llm_def prims
  by (auto split: sum.splits)

lemma cell_generate_performs: "performs (cell_generate llm) steps_generate"
  unfolding cell_generate_def performs_def steps_generate_def prims
  by (auto split: sum.splits)

lemma cell_len_performs: "performs (cell_len llm_result) steps_len"
  unfolding cell_len_def performs_def steps_len_def prims
  by (auto split: sum.splits)

lemma cell_first_performs: "performs (cell_first llm_result) steps_first"
  unfolding cell_first_def performs_def steps_first_def prims
  by (auto split: sum.splits)

lemma notebook_performs: "performs notebook script"
  unfolding notebook_def script_def steps_build_def steps_use_def append_assoc
  by (intro performs_bind performs_split cell_logging_performs cell_dotenv_performs
        cell_openai_performs cell_models_performs cell_documents_performs
        cell_prompt_helper_performs cell_service_context_performs cell_redis_performs
        cell_index_performs cell_query_performs ask_performs cell_llm_performs
        cell_generate_performs cell_len_performs cell_first_performs performs_display)


section \<open>Exceptions of library calls\<close>

lemma failures_append [simp]: "failures (a @ b) = failures a @ failures b"
  by (simp add: failures_def map_filter_def)

lemma failures_Nil [simp]: "failures [] = []"
  by (simp add: failures_def map_filter_def)

lemma failures_Cons [simp]:
  "failures (e # t) = (case failure e of None \<Rightarrow> failures t | Some x \<Rightarrow> x # failures t)"
  by (simp add: failures_def map_filter_def split: option.splits)

lemma propagates_ret: "propagates (ret x)"
  by (simp add: propagates_def ret_def)

lemma propagates_to_int: "propagates (to_int v)"
  by (auto simp: propagates_def to_int_def py_int_def ret_def raise_def split: option.splits)

lemma propagates_call: "propagates (call c)"
  by (auto simp: propagates_def call_def failure_def split: sum.splits)

lemma propagates_getenv: "propagates (getenv n)"
  by (simp add: propagates_def getenv_def failure_def)

lemma propagates_assign: "propagates (assign n v)"
  by (simp add: propagates_def assign_def failure_def)

lemma propagates_print: "propagates (print a)"
  by (simp add: propagates_def print_def failure_def)

lemma propagates_display: "propagates (display a)"
  by (simp add: propagates_def display_def failure_def)

lemma propagates_bind:
  assumes "propagates m" and "\<And>x. propagates (f x)"
  shows "propagates (bind m f)"
  unfolding propagates_def
proof (intro allI)
  fix h t
  from assms(1) obtain new1 where m1: "fst (m h t) = t @ new1"
    and r1: "case snd (m h t) of
         Inl (Raised x) \<Rightarrow> new1 \<noteq> [] \<and> failure (last new1) = Some x \<and> failures (butlast new1) = []
       | _ \<Rightarrow> failures new1 = []"
    unfolding propagates_def by blast
  show "\<exists>new. fst (bind m f h t) = t @ new \<and>
      (case snd (bind m f h t) of
         Inl (Raised x) \<Rightarrow> new \<noteq> [] \<and> failure (last new) = Some x \<and> failures (butlast new) = []
       | _ \<Rightarrow> failures new = [])"
  proof (cases "snd (m h t)")
    case (Inl e)
    then have "bind m f h t = (t @ new1, Inl e)"
      using m1 by (cases "m h t") (auto simp: bind_def)
    with r1 Inl show ?thesis by auto
  next
    case (Inr x)
    from assms(2)[of x] obtain new2 where m2: "fst (f x h (t @ new1)) = (t @ new1) @ new2"
      and r2: "case snd (f x h (t @ new1)) of
         Inl (Raised x) \<Rightarrow> new2 \<noteq> [] \<and> failure (last new2) = Some x \<and> failures (butlast new2) = []
       | _ \<Rightarrow> failures new2 = []"
      unfolding propagates_def by blast
    from Inr m1 have b: "bind m f h t = f x h (t @ new1)"
      by (cases "m h t") (auto simp: bind_def)
    from Inr r1 have c1: "failures new1 = []" by simp
    show ?thesis
      using m2 r2 c1 unfolding b
      by (intro exI[of _ "new1 @ new2"]) (auto simp: butlast_append split: sum.splits exn.splits)
  qed
qed

lemma propagates_split: "(\<And>a b. propagates (f a b)) \<Longrightarrow> propagates (case_prod f p)"
  by (cases p) simp

lemma notebook_propagates: "propagates notebook"
  unfolding notebook_def cells format_redis_conn_from_env_def getenv_default_def
  by (intro propagates_bind propagates_split propagates_call propagates_getenv propagates_assign
        propagates_print propagates_display propagates_ret propagates_to_int)


section \<open>Provenance of objects\<close>





lemma keeps_source_call_end: "set_call c \<subseteq> S \<Longrightarrow> keeps_source S (call c)"
  by (auto simp: keeps_source_def call_def split: sum.splits)








lemma set_pyval_of_opt [simp]: "set_pyval (of_opt v) = {}"
  by (simp add: of_opt_def split: option.splits)




section \<open>Runs of the whole notebook\<close>


lemma failures_empty_iff: "failures t = [] \<longleftrightarrow> (\<forall>e \<in> set t. failure e = None)"
  by (induction t) (auto split: option.splits)

lemma failures_butlast: "failures t = [] \<Longrightarrow> failures (butlast t) = []"
  by (auto simp: failures_empty_iff dest: in_set_butlastD)

lemma notebook_run_failures:
  "case snd (notebook h []) of
     Inl (Raised x) \<Rightarrow> fst (notebook h []) \<noteq> [] \<and> failure (last (fst (notebook h []))) = Some x
                       \<and> failures (butlast (fst (notebook h []))) = []
   | _ \<Rightarrow> failures (fst (notebook h [])) = []"
proof -
  from notebook_propagates obtain new where n: "fst (notebook h []) = [] @ new"
    and c: "case snd (notebook h []) of
         Inl (Raised x) \<Rightarrow> new \<noteq> [] \<and> failure (last new) = Some x \<and> failures (butlast new) = []
       | _ \<Rightarrow> failures new = []"
    unfolding propagates_def by blast
  from n have e: "fst (notebook h []) = new" by simp
  show ?thesis using c unfolding e .
qed

lemma notebook_failures_butlast: "failures (butlast (fst (notebook h []))) = []"
  using notebook_run_failures[of h]
  by (auto split: sum.splits exn.splits intro: failures_butlast)

lemma failed_event_is_last:
  assumes "failures (butlast t) = []" and "e \<in> set t" and "failure e = Some x"
  shows "e = last t"
proof (rule ccontr)
  assume ne: "e \<noteq> last t"
  from assms(2) have "t \<noteq> []" by auto
  then have "t = butlast t @ [last t]" by simp
  with assms(2) ne have "e \<in> set (butlast t)"
    by (metis Un_iff empty_iff empty_set set_ConsD set_append)
  with assms(1,3) show False by (simp add: failures_empty_iff)
qed

lemma notebook_run_steps:
  "prefix (map step (fst (notebook h []))) script"
  "snd (notebook h []) = Inr u \<Longrightarrow> map step (fst (notebook h [])) = script"
proof -
  from notebook_performs obtain new where n: "fst (notebook h []) = [] @ new"
    and c: "case snd (notebook h []) of Inr _ \<Rightarrow> map step new = script
                                       | Inl _ \<Rightarrow> prefix (map step new) script"
    unfolding performs_def by blast
  from n have e: "fst (notebook h []) = new" by simp
  from c show "prefix (map step (fst (notebook h []))) script"
    unfolding e by (cases "snd (notebook h [])") auto
  assume "snd (notebook h []) = Inr u"
  with c show "map step (fst (notebook h [])) = script"
    unfolding e by simp
qed

lemma run_past:
  assumes "prefix (map step tr) (A @ B)" and "e \<in> set tr" and "step e \<notin> set A"
  shows "\<exists>tr1 tr2. tr = tr1 @ tr2 \<and> map step tr1 = A \<and> e \<in> set tr2 \<and> prefix (map step tr2) B"
proof -
  have "prefix A (A @ B)" by simp
  with assms(1) have "prefix (map step tr) A \<or> prefix A (map step tr)"
    by (rule prefix_same_cases)
  moreover have "\<not> prefix (map step tr) A"
  proof
    assume "prefix (map step tr) A"
    then have "set (map step tr) \<subseteq> set A" by (rule set_mono_prefix)
    with assms(2,3) show False by auto
  qed
  ultimately obtain C where C: "map step tr = A @ C" by (auto simp: prefix_def)
  with assms(1) have pb: "prefix C B" by simp
  from C obtain tr1 tr2 where t: "tr = tr1 @ tr2" "map step tr1 = A" "map step tr2 = C"
    by (auto simp: map_eq_append_conv)
  with assms(2,3) have "e \<in> set tr2" by auto
  with t pb show ?thesis by blast
qed

lemma prefix_map_filter:
  "prefix xs ys \<Longrightarrow> prefix (List.map_filter f xs) (List.map_filter f ys)"
  by (auto simp: prefix_def map_filter_def)

lemma sorted_prefix: "prefix xs ys \<Longrightarrow> sorted ys \<Longrightarrow> sorted xs"
  by (auto simp: prefix_def sorted_append)

lemmas steps_defs = steps_logging_def steps_dotenv_def steps_openai_def steps_models_def
  steps_documents_def steps_prompt_helper_def steps_service_context_def steps_format_redis_def
  steps_redis_def steps_index_def steps_ask_def steps_query_def steps_llm_def
  steps_generate_def steps_len_def steps_first_def

lemma sorted_stages_script: "sorted (List.map_filter stage script)"
  by (simp add: script_def steps_build_def steps_use_def steps_defs map_filter_def stage_def)

lemma build_no_query: "s \<in> set steps_build \<Longrightarrow> stage s \<noteq> Some 4"
  by (auto simp: steps_build_def steps_defs stage_def)

lemma questions_script: "questions script = [[query1], [query2], [query3]]"
  by (simp add: questions_def script_def steps_build_def steps_use_def steps_defs)


lemmas run_simps = notebook_def cells format_redis_conn_from_env_def prims
  demo_bindings_def py_format_def py_int_def py_int_str_def parse_ascii_def strip_def
  is_space_def is_digit_def digit_val_def of_opt_def

lemma demo_run:
  "\<exists>tr. notebook demo_host [] = (tr, Inr ())
     \<and> tr ! 26 = Call (Method 25 ''load_data'' [] []) (Inr 26)
     \<and> tr ! 30 = Getenv ''OPENAI_MAX_TOKENS'' (Some ''256'')
     \<and> tr ! 40 = Call (Func ''RedisVectorStore'' []
                        [(''index_name'', PStr ''chevy_docs''), (''index_prefix'', PStr ''blog''),
                         (''redis_url'', PStr ''redis://default:@localhost:6379''),
                         (''overwrite'', PBool True)]) (Inr 40)
     \<and> tr ! 45 = Call (Func ''GPTVectorStoreIndex.from_documents'' [PObj 26]
                        [(''storage_context'', PObj 44), (''service_context'', PObj 34)]) (Inr 45)
     \<and> tr ! 47 = Call (Method 46 ''query'' [PStr query1] []) (Inr 47)
     \<and> length tr = 69"
  by (simp add: run_simps demo_host_def)

lemma nokey_run:
  "\<exists>tr. notebook nokey_host [] = (tr, Inl (Raised 401))
     \<and> last tr = Call (Func ''GPTVectorStoreIndex.from_documents'' [PObj 26]
                        [(''storage_context'', PObj 44), (''service_context'', PObj 34)]) (Inl 401)
     \<and> length tr = 46"
  by (simp add: run_simps nokey_host_def)


lemma demo_run_result: "snd (notebook demo_host []) = Inr ()"
  using demo_run by auto

lemma nokey_run_result: "snd (notebook nokey_host []) = Inl (Raised 401)"
  using nokey_run by auto


section \<open>Exceptions propagate\<close>

text \<open>
  Claim C6. An exception raised by any library call of the notebook propagates out of
  the script: the failed call is the last event of the run, so nothing is retried,
  recovered or rolled back after it, and its exception is the result of the run.
\<close>

theorem library_exception_ends_the_run:
  "(\<forall>e x. e \<in> set (fst (notebook h [])) \<and> failure e = Some x \<longrightarrow>
       snd (notebook h []) = Inl (Raised x) \<and> e = last (fst (notebook h [])))
   \<and> failures (butlast (fst (notebook h []))) = []
   \<and> (\<forall>x. snd (notebook h []) = Inl (Raised x) \<longrightarrow>
         fst (notebook h []) \<noteq> [] \<and> failure (last (fst (notebook h []))) = Some x)"
proof (intro conjI allI impI)
  show b: "failures (butlast (fst (notebook h []))) = []"
    by (rule notebook_failures_butlast)
  fix e x
  assume a: "e \<in> set (fst (notebook h [])) \<and> failure e = Some x"
  then show l: "e = last (fst (notebook h []))"
    using b by (blast intro: failed_event_is_last)
  from a have nf: "failures (fst (notebook h [])) \<noteq> []"
    by (auto simp: failures_empty_iff)
  show "snd (notebook h []) = Inl (Raised x)"
    using notebook_run_failures[of h] nf a l
    by (auto split: sum.splits exn.splits)
next
  fix x
  assume "snd (notebook h []) = Inl (Raised x)"
  then show "fst (notebook h []) \<noteq> []" "failure (last (fst (notebook h []))) = Some x"
    using notebook_run_failures[of h] by auto
qed


theorem library_exception_ends_the_run_witness:
  "failure (last (fst (notebook nokey_host []))) = Some 401
   \<and> last (fst (notebook nokey_host [])) \<in> set (fst (notebook nokey_host []))
   \<and> snd (notebook nokey_host []) = Inl (Raised 401)
   \<and> failures (butlast (fst (notebook nokey_host []))) = []"
proof -
  from nokey_run obtain tr where r: "notebook nokey_host [] = (tr, Inl (Raised 401))"
    and l: "last tr = Call (Func ''GPTVectorStoreIndex.from_documents'' [PObj 26]
                        [(''storage_context'', PObj 44), (''service_context'', PObj 34)]) (Inl 401)"
    and n: "length tr = 46" by blast
  from n have ne: "tr \<noteq> []" by auto
  then have "last tr \<in> set tr" by simp
  with r l show ?thesis
    using library_exception_ends_the_run [of nokey_host]
    by (simp add: failure_def)
qed


section \<open>Control flow of the notebook\<close>

text \<open>
  The spec says that the repository has no control flow of its own. The function
  \<^verbatim>\<open>format_redis_conn_from_env\<close> has two conditionals: with the same environment it
  makes the same four lookups and no library call for either value of \<open>using_ssl\<close>,
  yet returns different strings, and without \<^verbatim>\<open>REDIS_PASSWORD\<close> it leaves the
  credentials out instead of rendering \<^verbatim>\<open>None\<close> as it does for the address.
\<close>

theorem redis_conn_branches_counterexample:
  "fst (format_redis_conn_from_env True demo_host []) =
     fst (format_redis_conn_from_env False demo_host [])
   \<and> snd (format_redis_conn_from_env True demo_host []) = Inr ''rediss://default:@localhost:6379''
   \<and> snd (format_redis_conn_from_env False demo_host []) = Inr ''redis://default:@localhost:6379''
   \<and> snd (format_redis_conn_from_env False
             (demo_host\<lparr>environ := (environ demo_host)(''REDIS_PASSWORD'' := None)\<rparr>) [])
       = Inr ''redis://localhost:6379''"
  by (simp add: format_redis_conn_from_env_run demo_host_def demo_bindings_def py_format_def)

text \<open>
  Claim C1, amended. Outside \<^verbatim>\<open>format_redis_conn_from_env\<close> the notebook is straight-line
  code: the steps of every run are a beginning of one fixed sequence, \<open>script\<close>, and
  all of it when the run returns, whatever the environment holds and the libraries
  answer. The function itself chooses the scheme by \<open>using_ssl\<close> and adds the
  credentials only when \<^verbatim>\<open>REDIS_PASSWORD\<close> is set.
\<close>

theorem notebook_straight_line_except_redis_conn:
  "prefix (map step (fst (notebook h []))) script
   \<and> (snd (notebook h []) = Inr () \<longrightarrow> map step (fst (notebook h [])) = script)
   \<and> snd (format_redis_conn_from_env using_ssl h t) =
       Inr ((if using_ssl then ''rediss://'' else ''redis://'')
            @ (if environ h ''REDIS_PASSWORD'' \<noteq> None
               then (case environ h ''REDIS_USERNAME'' of None \<Rightarrow> ''default'' | Some u \<Rightarrow> u)
                    @ '':'' @ py_format (environ h ''REDIS_PASSWORD'') @ ''@''
               else [])
            @ py_format (environ h ''REDIS_ADDRESS'') @ '':''
            @ py_format (environ h ''REDIS_PORT''))"
  using notebook_run_steps[of h]
  by (auto simp: format_redis_conn_from_env_run py_format_def)

theorem notebook_straight_line_except_redis_conn_witness:
  "snd (notebook demo_host []) = Inr ()
   \<and> map step (fst (notebook demo_host [])) = script
   \<and> snd (format_redis_conn_from_env True demo_host []) = Inr ''rediss://default:@localhost:6379''"
  using notebook_straight_line_except_redis_conn [of demo_host True "[]"] demo_run_result
  by (simp add: demo_host_def demo_bindings_def py_format_def)


section \<open>Order of the pipeline stages\<close>

text \<open>
  The spec puts all configuration before the loading of the documents. In the notebook
  the cell that loads the documents comes fifth: the run on \<open>demo_host\<close> calls
  \<^verbatim>\<open>load_data\<close> as event 26, reads \<^verbatim>\<open>OPENAI_MAX_TOKENS\<close> as event 30 and sets up the
  Redis store as event 40.
\<close>

theorem configuration_after_loading_counterexample:
  "fst (notebook demo_host []) ! 26 = Call (Method 25 ''load_data'' [] []) (Inr 26)
   \<and> fst (notebook demo_host []) ! 30 = Getenv ''OPENAI_MAX_TOKENS'' (Some ''256'')
   \<and> fst (notebook demo_host []) ! 40 =
        Call (Func ''RedisVectorStore'' []
                [(''index_name'', PStr ''chevy_docs''), (''index_prefix'', PStr ''blog''),
                 (''redis_url'', PStr ''redis://default:@localhost:6379''),
                 (''overwrite'', PBool True)]) (Inr 40)"
  using demo_run by auto

text \<open>
  Claim C5, amended. In every run the stages occur in this order: logging, the
  \<^verbatim>\<open>.env\<close> file, the OpenAI settings and the two models (stage 0); loading the
  documents (1); the prompt helper, the service context and the Redis store with their
  environment lookups (2); building the index (3); the queries (4). Every event of the
  query stage comes after all the steps up to and including
  \<^verbatim>\<open>GPTVectorStoreIndex.from_documents\<close> have been performed without a failed call, so no
  query is issued before the index is built.
\<close>

theorem pipeline_stages_in_order:
  "sorted (stages (fst (notebook h [])))
   \<and> (\<forall>e \<in> set (fst (notebook h [])). stage (step e) = Some 4 \<longrightarrow>
         (\<exists>tr1 tr2. fst (notebook h []) = tr1 @ tr2 \<and> map step tr1 = steps_build
                     \<and> failures tr1 = [] \<and> e \<in> set tr2))"
proof (intro conjI ballI impI)
  have "prefix (stages (fst (notebook h []))) (List.map_filter stage script)"
    unfolding stages_def by (intro prefix_map_filter notebook_run_steps)
  then show "sorted (stages (fst (notebook h [])))"
    using sorted_stages_script by (rule sorted_prefix)
next
  fix e
  assume e: "e \<in> set (fst (notebook h []))" and s: "stage (step e) = Some 4"
  from s have "step e \<notin> set steps_build"
    using build_no_query by blast
  with e notebook_run_steps(1)[of h] obtain tr1 tr2
    where t: "fst (notebook h []) = tr1 @ tr2" "map step tr1 = steps_build" "e \<in> set tr2"
    unfolding script_def by (blast dest: run_past)
  from t(3) have "tr2 \<noteq> []" by auto
  then have "butlast (tr1 @ tr2) = tr1 @ butlast tr2"
    by (simp add: butlast_append)
  with notebook_failures_butlast[of h] t(1) have "failures tr1 = []"
    by simp
  with t show "\<exists>tr1 tr2. fst (notebook h []) = tr1 @ tr2 \<and> map step tr1 = steps_build
                     \<and> failures tr1 = [] \<and> e \<in> set tr2"
    by blast
qed

theorem pipeline_stages_in_order_witness:
  "sorted (stages (fst (notebook demo_host [])))
   \<and> fst (notebook demo_host []) ! 47 \<in> set (fst (notebook demo_host []))
   \<and> stage (step (fst (notebook demo_host []) ! 47)) = Some 4
   \<and> map step (take 46 (fst (notebook demo_host []))) = steps_build
   \<and> failures (take 46 (fst (notebook demo_host []))) = []
   \<and> fst (notebook demo_host []) ! 47 \<in> set (drop 46 (fst (notebook demo_host [])))"
proof -
  from demo_run obtain tr where r: "fst (notebook demo_host []) = tr"
    and q: "tr ! 47 = Call (Method 46 ''query'' [PStr query1] []) (Inr 47)"
    and n: "length tr = 69" by auto
  from n have m: "tr ! 47 \<in> set tr" by (intro nth_mem) simp
  from q have s: "stage (step (tr ! 47)) = Some 4" by (simp add: stage_def)
  from pipeline_stages_in_order [of demo_host] r m s obtain tr1 tr2
    where o: "sorted (stages tr)" and t: "tr = tr1 @ tr2" and b: "map step tr1 = steps_build"
      and f: "failures tr1 = []" and e: "tr ! 47 \<in> set tr2"
    by blast
  from b have "length tr1 = length steps_build" by (metis length_map)
  then have "length tr1 = 46" by (simp add: steps_build_def steps_defs)
  with t have "take 46 tr = tr1" "drop 46 tr = tr2" by simp_all
  with r o m s b f e show ?thesis by simp
qed

section \<open>Where the Redis address comes from\<close>

text \<open>
  The spec lists a Redis connection URL among the environment variables. The notebook
  reads no such variable: with \<^verbatim>\<open>REDIS_URL\<close> set, the address it connects to is still
  the one put together from the other variables, and that address is the value of no
  variable of the environment.
\<close>

theorem redis_url_variable_counterexample:
  "environ url_host ''REDIS_URL'' = Some ''redis://example.com:7000''
   \<and> snd (format_redis_conn_from_env False url_host []) = Inr ''redis://default:@localhost:6379''
   \<and> ''redis://default:@localhost:6379'' \<notin> snd ` set url_bindings"
  by (simp add: format_redis_conn_from_env_run url_host_def url_bindings_def demo_bindings_def
        py_format_def)

text \<open>
  Claim C4, amended. The Redis connection URL is put together from four environment
  variables: \<^verbatim>\<open>format_redis_conn_from_env\<close> reads \<^verbatim>\<open>REDIS_PASSWORD\<close>,
  \<^verbatim>\<open>REDIS_USERNAME\<close>, \<^verbatim>\<open>REDIS_ADDRESS\<close> and \<^verbatim>\<open>REDIS_PORT\<close>, in this order and
  nothing else, its result depends on the environment through these four only, and the
  cell prints it and hands it to \<^verbatim>\<open>RedisVectorStore\<close> as \<^verbatim>\<open>redis_url\<close>.
\<close>

theorem redis_url_assembled_from_four_variables:
  "(environ h ''REDIS_PASSWORD'' = environ h' ''REDIS_PASSWORD''
      \<and> environ h ''REDIS_USERNAME'' = environ h' ''REDIS_USERNAME''
      \<and> environ h ''REDIS_ADDRESS'' = environ h' ''REDIS_ADDRESS''
      \<and> environ h ''REDIS_PORT'' = environ h' ''REDIS_PORT''
    \<longrightarrow> snd (format_redis_conn_from_env using_ssl h t)
        = snd (format_redis_conn_from_env using_ssl h' t'))
   \<and> fst (format_redis_conn_from_env using_ssl h t) =
       t @ [Getenv ''REDIS_PASSWORD'' (environ h ''REDIS_PASSWORD''),
            Getenv ''REDIS_USERNAME'' (environ h ''REDIS_USERNAME''),
            Getenv ''REDIS_ADDRESS'' (environ h ''REDIS_ADDRESS''),
            Getenv ''REDIS_PORT'' (environ h ''REDIS_PORT'')]
   \<and> (\<exists>url r rest.
         snd (format_redis_conn_from_env False h t) = Inr url
         \<and> fst (cell_redis h t) =
             fst (format_redis_conn_from_env False h t)
             @ [Print [PStr (''Using Redis address: '' @ url)],
                Call (Func ''RedisVectorStore'' []
                        [(''index_name'', PStr ''chevy_docs''),
                         (''index_prefix'', PStr ''blog''),
                         (''redis_url'', PStr url),
                         (''overwrite'', PBool True)]) r]
             @ rest)"
proof (intro conjI impI)
  assume "environ h ''REDIS_PASSWORD'' = environ h' ''REDIS_PASSWORD''
      \<and> environ h ''REDIS_USERNAME'' = environ h' ''REDIS_USERNAME''
      \<and> environ h ''REDIS_ADDRESS'' = environ h' ''REDIS_ADDRESS''
      \<and> environ h ''REDIS_PORT'' = environ h' ''REDIS_PORT''"
  then show "snd (format_redis_conn_from_env using_ssl h t)
        = snd (format_redis_conn_from_env using_ssl h' t')"
    by (simp add: format_redis_conn_from_env_run split: option.splits)
next
  show "fst (format_redis_conn_from_env using_ssl h t) =
       t @ [Getenv ''REDIS_PASSWORD'' (environ h ''REDIS_PASSWORD''),
            Getenv ''REDIS_USERNAME'' (environ h ''REDIS_USERNAME''),
            Getenv ''REDIS_ADDRESS'' (environ h ''REDIS_ADDRESS''),
            Getenv ''REDIS_PORT'' (environ h ''REDIS_PORT'')]"
    by (simp add: format_redis_conn_from_env_run)
next
  show "\<exists>url r rest.
         snd (format_redis_conn_from_env False h t) = Inr url
         \<and> fst (cell_redis h t) =
             fst (format_redis_conn_from_env False h t)
             @ [Print [PStr (''Using Redis address: '' @ url)],
                Call (Func ''RedisVectorStore'' []
                        [(''index_name'', PStr ''chevy_docs''),
                         (''index_prefix'', PStr ''blog''),
                         (''redis_url'', PStr url),
                         (''overwrite'', PBool True)]) r]
             @ rest"
    unfolding cell_redis_def bind_def
    by (auto simp: format_redis_conn_from_env_run call_def print_def display_def ret_def
             split: sum.splits)
qed

theorem redis_url_assembled_from_four_variables_witness:
  "environ demo_host ''REDIS_PASSWORD'' = environ url_host ''REDIS_PASSWORD''
   \<and> environ demo_host ''REDIS_USERNAME'' = environ url_host ''REDIS_USERNAME''
   \<and> environ demo_host ''REDIS_ADDRESS'' = environ url_host ''REDIS_ADDRESS''
   \<and> environ demo_host ''REDIS_PORT'' = environ url_host ''REDIS_PORT''
   \<and> environ demo_host ''REDIS_URL'' \<noteq> environ url_host ''REDIS_URL''
   \<and> snd (format_redis_conn_from_env False demo_host [])
       = snd (format_redis_conn_from_env False url_host [])"
  using redis_url_assembled_from_four_variables [of demo_host url_host False "[]" "[]"]
  by (simp add: demo_host_def url_host_def url_bindings_def demo_bindings_def)


section \<open>Queries\<close>

lemma prefix_questions: "prefix xs ys \<Longrightarrow> prefix (questions xs) (questions ys)"
  by (auto simp: prefix_def questions_def)

text \<open>
  Claim C9. A question is forwarded as it is: the first thing the two lines of a query
  cell do with a question \<open>q\<close> is the call \<^verbatim>\<open>query_engine.query(q)\<close>, with \<open>q\<close> as its
  only argument, and they call \<^verbatim>\<open>query\<close> no second time. Over the whole notebook, the
  arguments of the \<^verbatim>\<open>query\<close> calls of a run are the three literal questions of the
  source, in their order: all three when the run returns, the first few when an
  exception ends it.
\<close>

theorem queries_forwarded_unchanged:
  "(\<exists>rest. fst (ask query_engine q h t) =
        t @ Call (Method query_engine ''query'' [PStr q] [])
                 (library h t (Method query_engine ''query'' [PStr q] [])) # rest
      \<and> questions (map step rest) = [])
   \<and> prefix (questions (map step (fst (notebook h [])))) [[query1], [query2], [query3]]
   \<and> (snd (notebook h []) = Inr () \<longrightarrow>
        questions (map step (fst (notebook h []))) = [[query1], [query2], [query3]])"
proof (intro conjI impI)
  show "\<exists>rest. fst (ask query_engine q h t) =
        t @ Call (Method query_engine ''query'' [PStr q] [])
                 (library h t (Method query_engine ''query'' [PStr q] [])) # rest
      \<and> questions (map step rest) = []"
    unfolding ask_def prims
    by (auto simp: questions_def split: sum.splits)
next
  show "prefix (questions (map step (fst (notebook h [])))) [[query1], [query2], [query3]]"
    using prefix_questions[OF notebook_run_steps(1)[of h]]
    by (simp add: questions_script)
next
  assume "snd (notebook h []) = Inr ()"
  then show "questions (map step (fst (notebook h []))) = [[query1], [query2], [query3]]"
    by (simp add: notebook_run_steps(2) questions_script)
qed

theorem queries_forwarded_unchanged_witness:
  "snd (notebook demo_host []) = Inr ()
   \<and> questions (map step (fst (notebook demo_host []))) = [[query1], [query2], [query3]]"
  using queries_forwarded_unchanged [of 46 query1 demo_host "[]"] demo_run_result
  by simp


section \<open>Library objects are passed on, not built or changed\<close>








section \<open>Integer conversion\<close>

lemma is_digit_not_underscore: "is_digit c \<Longrightarrow> c \<noteq> CHR ''_''"
  by (auto simp: is_digit_def)

lemma sublist_uu_Cons:
  "sublist ''__'' (c # cs) \<longleftrightarrow> (c = CHR ''_'' \<and> cs \<noteq> [] \<and> hd cs = CHR ''_'') \<or> sublist ''__'' cs"
  by (cases cs) (auto simp: sublist_Cons_right)

lemma py_digits_iff:
  "py_digits b acc s = Some v \<longleftrightarrow>
     (\<forall>c \<in> set s. is_digit c \<or> c = CHR ''_'') \<and> (s = [] \<longrightarrow> b)
     \<and> (s \<noteq> [] \<longrightarrow> (b \<or> is_digit (hd s)) \<and> is_digit (last s))
     \<and> \<not> sublist ''__'' s
     \<and> v = foldl (\<lambda>a c. 10 * a + digit_val c) acc (filter is_digit s)"
proof (induction s arbitrary: b acc)
  case Nil
  then show ?case by auto
next
  case (Cons c cs)
  show ?case
  proof (cases "is_digit c")
    case True
    then have u: "c \<noteq> CHR ''_''" by (rule is_digit_not_underscore)
    from True have step: "py_digits b acc (c # cs) = py_digits True (10 * acc + digit_val c) cs"
      by simp
    show ?thesis
      unfolding step Cons.IH using True u
      by (cases cs) (auto simp: sublist_uu_Cons)
  next
    case False
    show ?thesis
    proof (cases "c = CHR ''_'' \<and> b")
      case True
      with False have step: "py_digits b acc (c # cs) = py_digits False acc cs"
        by simp
      show ?thesis
        unfolding step Cons.IH using True False
        by (cases cs) (auto simp: sublist_uu_Cons is_digit_not_underscore)
    next
      case no: False
      with False have "py_digits b acc (c # cs) = None" by auto
      with False no show ?thesis by auto
    qed
  qed
qed


lemma py_digits_groups:
  "py_digits False 0 body = Some v \<longleftrightarrow> digit_groups body \<and> v = decimal (filter is_digit body)"
  unfolding py_digits_iff digit_groups_def decimal_def by auto

lemma digit_plain: "is_digit c \<Longrightarrow> \<not> is_space c \<and> c \<noteq> CHR ''-'' \<and> c \<noteq> CHR ''+''"
  by (auto simp: is_digit_def is_space_def)

lemma sign_not_space: "\<not> is_space (CHR ''-'')" "\<not> is_space (CHR ''+'')"
  by (simp_all add: is_space_def)

lemma dropWhile_all: "list_all P xs \<Longrightarrow> dropWhile P (xs @ ys) = dropWhile P ys"
  by (induction xs) auto

lemma dropWhile_hd: "xs \<noteq> [] \<Longrightarrow> \<not> P (hd xs) \<Longrightarrow> dropWhile P (xs @ ys) = xs @ ys"
  by (cases xs) auto

lemma strip_core:
  assumes "list_all is_space pre" and "list_all is_space post" and "core \<noteq> []"
    and "\<not> is_space (hd core)" and "\<not> is_space (last core)"
  shows "strip (pre @ core @ post) = core"
proof -
  have "dropWhile is_space (pre @ core @ post) = core @ post"
    using assms(1,3,4) by (simp add: dropWhile_all dropWhile_hd)
  moreover have "dropWhile is_space (rev post @ rev core) = rev core"
    using assms(2,3,5) dropWhile_hd[of "rev core" is_space "[]"]
    by (simp add: dropWhile_all hd_rev)
  ultimately show ?thesis by (simp add: strip_def)
qed

lemma strip_decomp:
  "\<exists>pre post. a = pre @ strip a @ post \<and> list_all is_space pre \<and> list_all is_space post"
proof -
  let ?mid = "dropWhile is_space a"
  have "a = takeWhile is_space a @ ?mid" by simp
  moreover have "?mid = strip a @ rev (takeWhile is_space (rev ?mid))"
    unfolding strip_def by (metis rev_append rev_rev_ident takeWhile_dropWhile_id)
  moreover have "list_all is_space (takeWhile is_space a)"
    by (auto simp: list_all_iff dest: set_takeWhileD)
  moreover have "list_all is_space (rev (takeWhile is_space (rev ?mid)))"
    by (auto simp: list_all_iff dest: set_takeWhileD)
  ultimately show ?thesis by metis
qed

lemma parse_ascii_iff:
  "parse_ascii a = Some n \<longleftrightarrow>
     (\<exists>pre sgn body post.
        a = pre @ sgn @ body @ post
        \<and> list_all is_space pre \<and> list_all is_space post
        \<and> sgn \<in> {[], ''+'', ''-''} \<and> digit_groups body
        \<and> n = (if sgn = ''-'' then - int (decimal (filter is_digit body))
                else int (decimal (filter is_digit body))))"
  (is "?lhs \<longleftrightarrow> ?rhs")
proof
  assume l: ?lhs
  from strip_decomp obtain pre post where d: "a = pre @ strip a @ post"
    and sp: "list_all is_space pre" "list_all is_space post" by blast
  from l obtain c cs where st: "strip a = c # cs"
    by (cases "strip a") (auto simp: parse_ascii_def)
  consider (minus) "c = CHR ''-''" | (plus) "c = CHR ''+''" | (none) "c \<noteq> CHR ''-''" "c \<noteq> CHR ''+''"
    by blast
  then show ?rhs
  proof cases
    case minus
    with l st obtain v where "py_digits False 0 cs = Some v" "n = - int v"
      by (auto simp: parse_ascii_def)
    then have "digit_groups cs" "n = - int (decimal (filter is_digit cs))"
      by (simp_all add: py_digits_groups)
    moreover from d st minus have "a = pre @ ''-'' @ cs @ post" by simp
    ultimately show ?thesis using sp by (intro exI[of _ pre] exI[of _ "''-''"] exI[of _ cs] exI[of _ post]) simp
  next
    case plus
    with l st obtain v where "py_digits False 0 cs = Some v" "n = int v"
      by (auto simp: parse_ascii_def)
    then have "digit_groups cs" "n = int (decimal (filter is_digit cs))"
      by (simp_all add: py_digits_groups)
    moreover from d st plus have "a = pre @ ''+'' @ cs @ post" by simp
    ultimately show ?thesis using sp by (intro exI[of _ pre] exI[of _ "''+''"] exI[of _ cs] exI[of _ post]) simp
  next
    case none
    with l st obtain v where "py_digits False 0 (c # cs) = Some v" "n = int v"
      by (auto simp: parse_ascii_def)
    then have "digit_groups (c # cs)" "n = int (decimal (filter is_digit (c # cs)))"
      by (simp_all only: py_digits_groups)
    moreover from d st have "a = pre @ [] @ (c # cs) @ post" by simp
    ultimately show ?thesis using sp by (intro exI[of _ pre] exI[of _ "[]"] exI[of _ "c # cs"] exI[of _ post]) simp
  qed
next
  assume ?rhs
  then obtain pre sgn body post where a: "a = pre @ sgn @ body @ post"
    and sp: "list_all is_space pre" "list_all is_space post"
    and sg: "sgn \<in> {[], ''+'', ''-''}" and g: "digit_groups body"
    and n: "n = (if sgn = ''-'' then - int (decimal (filter is_digit body))
                else int (decimal (filter is_digit body)))"
    by blast
  from g obtain c cs where b: "body = c # cs" and dc: "is_digit c" and dl: "is_digit (last body)"
    by (cases body) (auto simp: digit_groups_def)
  from g have pd: "py_digits False 0 body = Some (decimal (filter is_digit body))"
    by (simp add: py_digits_groups)
  have core: "strip (pre @ (sgn @ body) @ post) = sgn @ body"
  proof (rule strip_core)
    show "list_all is_space pre" "list_all is_space post" by fact+
    show "sgn @ body \<noteq> []" using b by simp
    show "\<not> is_space (hd (sgn @ body))"
      using sg b dc by (auto simp: digit_plain sign_not_space)
    show "\<not> is_space (last (sgn @ body))"
      using b dl by (simp add: digit_plain)
  qed
  then have st: "strip a = sgn @ body" using a by simp
  from sg consider "sgn = []" | "sgn = ''+''" | "sgn = ''-''" by blast
  then show ?lhs
  proof cases
    case 1
    with st b dc pd n show ?thesis
      using digit_plain[of c] by (simp add: parse_ascii_def)
  next
    case 2
    with st pd n show ?thesis by (simp add: parse_ascii_def)
  next
    case 3
    with st pd n show ?thesis by (simp add: parse_ascii_def)
  qed
qed

lemma py_int_str_iff: "py_int_str s = Some n \<longleftrightarrow> int_literal s n"
  unfolding py_int_str_def int_literal_def
  by (cases "to_ascii s") (simp_all add: parse_ascii_iff)

lemma utf8_char_bytes:
  assumes "utf8_char (c # cs) = Some (cp, n)"
  shows "(128 :: nat) \<le> of_char c \<and> (\<forall>b \<in> set (take (n - 1) cs). (128 :: nat) \<le> of_char b)"
proof (cases cs)
  case Nil
  with assms show ?thesis by (simp add: utf8_char_def)
next
  case c1: (Cons b1 cs1)
  show ?thesis
  proof (cases cs1)
    case Nil
    with assms c1 show ?thesis
      by (auto simp: utf8_char_def split: if_splits)
  next
    case c2: (Cons b2 cs2)
    show ?thesis
    proof (cases cs2)
      case Nil
      with assms c1 c2 show ?thesis
        by (auto simp: utf8_char_def Let_def split: if_splits)
    next
      case c3: (Cons b3 cs3)
      with assms c1 c2 show ?thesis
        by (auto simp: utf8_char_def Let_def split: if_splits)
    qed
  qed
qed

lemma to_ascii_keeps:
  "to_ascii s = Some a \<Longrightarrow> ch \<in> set s \<Longrightarrow> of_char ch < (128 :: nat) \<Longrightarrow> ch \<in> set a"
proof (induction s arbitrary: a rule: to_ascii.induct)
  case 1
  then show ?case by simp
next
  case (2 c cs)
  show ?case
  proof (cases "of_char c < (127 :: nat)")
    case True
    with "2.prems"(1) obtain a' where a: "to_ascii cs = Some a'" "a = c # a'"
      by auto
    show ?thesis
    proof (cases "ch = c")
      case True
      with a show ?thesis by simp
    next
      case False
      with "2.prems"(2) have "ch \<in> set cs" by simp
      with "2.IH"(1)[OF True a(1)] "2.prems"(3) a(2) show ?thesis by simp
    qed
  next
    case False
    with "2.prems"(1) obtain cp n where u: "utf8_char (c # cs) = Some (cp, n)"
      by (auto split: option.splits)
    from utf8_char_bytes[OF u] have hi: "(128 :: nat) \<le> of_char c"
      and rest: "\<forall>b \<in> set (take (n - 1) cs). (128 :: nat) \<le> of_char b" by blast+
    from hi "2.prems"(2,3) have "ch \<in> set cs" by auto
    then have "ch \<in> set (take (n - 1) cs) \<or> ch \<in> set (drop (n - 1) cs)"
      by (metis Un_iff append_take_drop_id set_append)
    with rest "2.prems"(3) have m: "ch \<in> set (drop (n - 1) cs)" by auto
    show ?thesis
    proof (cases "unicode_space cp")
      case True
      with False u "2.prems"(1) obtain a' where a: "to_ascii (drop (n - 1) cs) = Some a'"
        "a = CHR '' '' # a'" by auto
      from "2.IH"(2)[OF False u refl True a(1) m "2.prems"(3)] a(2) show ?thesis by simp
    next
      case ns: False
      with False u "2.prems"(1) obtain d where d: "unicode_decimal cp = Some d"
        by (auto split: option.splits)
      with ns False u "2.prems"(1) obtain a' where a: "to_ascii (drop (n - 1) cs) = Some a'"
        "a = char_of (48 + d) # a'" by auto
      from "2.IH"(3)[OF False u refl ns d a(1) m "2.prems"(3)] a(2) show ?thesis by simp
    qed
  qed
qed

lemma to_ascii_plain: "\<forall>c \<in> set s. of_char c < (127 :: nat) \<Longrightarrow> to_ascii s = Some s"
  by (induction s) auto

lemma is_digit_ascii: "is_digit c \<Longrightarrow> of_char c < (127 :: nat)"
  by (auto simp: is_digit_def)

lemma int_literal_digits:
  assumes "s \<noteq> []" and "list_all is_digit s"
  shows "int_literal s (int (decimal s))"
proof -
  from assms(2) have "to_ascii s = Some s"
    by (intro to_ascii_plain) (auto simp: list_all_iff is_digit_ascii)
  moreover have "digit_groups s"
  proof -
    from assms have "is_digit (hd s)" "is_digit (last s)"
      by (simp_all add: list_all_iff)
    moreover have "\<not> sublist ''__'' s"
    proof
      assume "sublist ''__'' s"
      then have "set ''__'' \<subseteq> set s" by (rule set_mono_sublist)
      with assms(2) have "is_digit (CHR ''_'')" by (simp add: list_all_iff)
      then show False by (simp add: is_digit_def)
    qed
    ultimately show ?thesis
      using assms by (simp add: digit_groups_def list_all_iff)
  qed
  moreover from assms(2) have "filter is_digit s = s"
    by (simp add: list_all_iff)
  ultimately show ?thesis
    unfolding int_literal_def
    by (intro exI[of _ s] exI[of _ "[]"]) simp
qed

lemma int_literal_chars:
  assumes "int_literal s n" and "ch \<in> set s" and "of_char ch < (128 :: nat)"
  shows "is_digit ch \<or> is_space ch \<or> ch \<in> set ''+-_''"
proof -
  from assms(1) obtain a pre sgn body post where a: "to_ascii s = Some a"
    "a = pre @ sgn @ body @ post" "list_all is_space pre" "list_all is_space post"
    "sgn \<in> {[], ''+'', ''-''}" "digit_groups body"
    unfolding int_literal_def by blast
  from to_ascii_keeps[OF a(1) assms(2,3)] a(2)
  have "ch \<in> set pre \<or> ch \<in> set sgn \<or> ch \<in> set body \<or> ch \<in> set post" by simp
  with a(3-6) show ?thesis
    by (auto simp: list_all_iff digit_groups_def)
qed

lemma digit_chars:
  "char_of (48 :: nat) = CHR ''0''" "char_of (49 :: nat) = CHR ''1''"
  "char_of (50 :: nat) = CHR ''2''" "char_of (51 :: nat) = CHR ''3''"
  "char_of (52 :: nat) = CHR ''4''" "char_of (53 :: nat) = CHR ''5''"
  "char_of (54 :: nat) = CHR ''6''" "char_of (55 :: nat) = CHR ''7''"
  "char_of (56 :: nat) = CHR ''8''" "char_of (57 :: nat) = CHR ''9''"
  by (simp_all add: char_of_eq_iff)

lemmas int_eval = py_int_def py_int_str_def parse_ascii_def strip_def is_space_def is_digit_def
  digit_val_def utf8_char_def unicode_space_def unicode_decimal_def decimal_blocks_def digit_chars

lemma py_int_errors:
  "py_int v = Inl e \<Longrightarrow> (v = None \<and> e = TypeError) \<or> (v \<noteq> None \<and> e = ValueError)"
  by (auto simp: py_int_def split: option.splits)

lemma py_int_literal: "py_int (Some s) = Inr n \<longleftrightarrow> int_literal s n"
  by (auto simp: py_int_def py_int_str_iff[symmetric] split: option.splits)

lemma py_int_no_literal: "py_int (Some s) = Inl ValueError \<longleftrightarrow> \<not> (\<exists>n. int_literal s n)"
  by (auto simp: py_int_def py_int_str_iff[symmetric] split: option.splits)

lemma py_int_digits:
  "s \<noteq> [] \<Longrightarrow> list_all is_digit s \<Longrightarrow> py_int (Some s) = Inr (int (decimal s))"
  by (simp add: py_int_literal int_literal_digits)

lemma py_int_other_char:
  assumes "ch \<in> set s" and "of_char ch < (128 :: nat)"
    and "\<not> is_digit ch" and "\<not> is_space ch" and "ch \<notin> set ''+-_''"
  shows "py_int (Some s) = Inl ValueError"
  unfolding py_int_no_literal using assms int_literal_chars by blast

lemma py_int_examples:
  "py_int (Some '''') = Inl ValueError"
  "py_int (Some ''+'') = Inl ValueError"
  "py_int (Some ''12a'') = Inl ValueError"
  "py_int (Some ''1__0'') = Inl ValueError"
  "py_int (Some [CHR 0x1C, CHR ''5'', CHR 0x1F]) = Inl ValueError"
  "py_int (Some ''-5'') = Inr (- 5)"
  "py_int (Some '' 12 '') = Inr 12"
  "py_int (Some ''1_000'') = Inr 1000"
  "py_int (Some [CHR 0xD9, CHR 0xA3, CHR 0xD9, CHR 0xA2]) = Inr 32"
  "py_int (Some [CHR 0xC2, CHR 0xA0, CHR ''5'']) = Inr 5"
  by (simp_all add: int_eval)

text \<open>
  Claim C8. The prompt helper cell converts \<^verbatim>\<open>OPENAI_MAX_TOKENS\<close>, \<^verbatim>\<open>CHUNK_SIZE\<close> and
  \<^verbatim>\<open>CHUNK_OVERLAP\<close> with \<^verbatim>\<open>int\<close>, in this order. The first of them that \<^verbatim>\<open>int\<close>
  rejects ends the cell with the exception of \<^verbatim>\<open>int\<close>, after the lookups made so far
  and before any library call: \<^verbatim>\<open>TypeError\<close> for an unset variable, \<^verbatim>\<open>ValueError\<close> for a
  string that is no integer literal. When all three are converted, what remains of the
  cell is the one call \<^verbatim>\<open>PromptHelper(max_input_size, num_output, max_chunk_overlap)\<close>
  with the number of \<^verbatim>\<open>CHUNK_SIZE\<close> first, that of \<^verbatim>\<open>OPENAI_MAX_TOKENS\<close> second and
  that of \<^verbatim>\<open>CHUNK_OVERLAP\<close> third.

  The strings that \<^verbatim>\<open>int\<close> converts are exactly the integer literals, \<open>int_literal\<close>,
  and the result is the number of the literal; every other string gives
  \<^verbatim>\<open>ValueError\<close>. So a non-empty string of decimal digits is converted to the number it
  stands for, and a string with an ASCII character other than a digit, a sign, an
  underscore or white space is rejected, the separators \<^verbatim>\<open>0x1C\<close> to \<^verbatim>\<open>0x1F\<close> included.
  The empty string, a sign alone, \<^verbatim>\<open>12a\<close> and \<^verbatim>\<open>1__0\<close> are rejected; \<^verbatim>\<open>-5\<close>, a
  number between blanks, \<^verbatim>\<open>1_000\<close>, the Arabic-Indic digits three and two, and a digit
  after a no-break space are converted.
\<close>

theorem prompt_helper_conversions:
  fixes h :: "('x, 'v) host" and ra rb rc :: "'x exn + int"
  assumes "environ h ''OPENAI_MAX_TOKENS'' = a" and "py_int a = ra"
    and "environ h ''CHUNK_SIZE'' = b" and "py_int b = rb"
    and "environ h ''CHUNK_OVERLAP'' = c" and "py_int c = rc"
  shows "(\<forall>e. ra = Inl e \<longrightarrow>
            cell_prompt_helper h t = (t @ [Getenv ''OPENAI_MAX_TOKENS'' a], Inl e))
    \<and> (\<forall>n e. ra = Inr n \<and> rb = Inl e \<longrightarrow>
            cell_prompt_helper h t =
              (t @ [Getenv ''OPENAI_MAX_TOKENS'' a, Getenv ''CHUNK_SIZE'' b], Inl e))
    \<and> (\<forall>n m e. ra = Inr n \<and> rb = Inr m \<and> rc = Inl e \<longrightarrow>
            cell_prompt_helper h t =
              (t @ [Getenv ''OPENAI_MAX_TOKENS'' a, Getenv ''CHUNK_SIZE'' b,
                    Getenv ''CHUNK_OVERLAP'' c], Inl e))
    \<and> (\<forall>n m k. ra = Inr n \<and> rb = Inr m \<and> rc = Inr k \<longrightarrow>
            cell_prompt_helper h t =
              call (Func ''PromptHelper'' [PInt m, PInt n, PInt k] []) h
                (t @ [Getenv ''OPENAI_MAX_TOKENS'' a, Getenv ''CHUNK_SIZE'' b,
                      Getenv ''CHUNK_OVERLAP'' c]))
    \<and> (\<forall>v e. py_int v = (Inl e :: 'x exn + int) \<longrightarrow>
            (v = None \<and> e = TypeError) \<or> (v \<noteq> None \<and> e = ValueError))
    \<and> py_int None = (Inl TypeError :: 'x exn + int)
    \<and> (\<forall>s n. py_int (Some s) = (Inr n :: 'x exn + int) \<longleftrightarrow> int_literal s n)
    \<and> (\<forall>s. py_int (Some s) = (Inl ValueError :: 'x exn + int) \<longleftrightarrow> \<not> (\<exists>n. int_literal s n))
    \<and> (\<forall>s ch. ch \<in> set s \<and> of_char ch < (128 :: nat)
              \<and> \<not> is_digit ch \<and> \<not> is_space ch \<and> ch \<notin> set ''+-_'' \<longrightarrow>
            py_int (Some s) = (Inl ValueError :: 'x exn + int))
    \<and> (\<forall>s. s \<noteq> [] \<and> list_all is_digit s \<longrightarrow>
            py_int (Some s) = (Inr (int (decimal s)) :: 'x exn + int))
    \<and> py_int (Some '''') = (Inl ValueError :: 'x exn + int)
    \<and> py_int (Some ''+'') = (Inl ValueError :: 'x exn + int)
    \<and> py_int (Some ''12a'') = (Inl ValueError :: 'x exn + int)
    \<and> py_int (Some ''1__0'') = (Inl ValueError :: 'x exn + int)
    \<and> py_int (Some [CHR 0x1C, CHR ''5'', CHR 0x1F]) = (Inl ValueError :: 'x exn + int)
    \<and> py_int (Some ''-5'') = (Inr (- 5) :: 'x exn + int)
    \<and> py_int (Some '' 12 '') = (Inr 12 :: 'x exn + int)
    \<and> py_int (Some ''1_000'') = (Inr 1000 :: 'x exn + int)
    \<and> py_int (Some [CHR 0xD9, CHR 0xA3, CHR 0xD9, CHR 0xA2]) = (Inr 32 :: 'x exn + int)
    \<and> py_int (Some [CHR 0xC2, CHR 0xA0, CHR ''5'']) = (Inr 5 :: 'x exn + int)"
proof -
  have run: "cell_prompt_helper h t =
     (case ra of
        Inl e \<Rightarrow> (t @ [Getenv ''OPENAI_MAX_TOKENS'' a], Inl e)
      | Inr n \<Rightarrow>
         (case rb of
            Inl e \<Rightarrow> (t @ [Getenv ''OPENAI_MAX_TOKENS'' a, Getenv ''CHUNK_SIZE'' b], Inl e)
          | Inr m \<Rightarrow>
             (case rc of
                Inl e \<Rightarrow> (t @ [Getenv ''OPENAI_MAX_TOKENS'' a, Getenv ''CHUNK_SIZE'' b,
                                Getenv ''CHUNK_OVERLAP'' c], Inl e)
              | Inr k \<Rightarrow> call (Func ''PromptHelper'' [PInt m, PInt n, PInt k] []) h
                           (t @ [Getenv ''OPENAI_MAX_TOKENS'' a, Getenv ''CHUNK_SIZE'' b,
                                 Getenv ''CHUNK_OVERLAP'' c]))))"
    using assms
    by (auto simp: cell_prompt_helper_def bind_def getenv_def to_int_def ret_def raise_def
          split: sum.splits)
  have first: "\<forall>e. ra = Inl e \<longrightarrow>
            cell_prompt_helper h t = (t @ [Getenv ''OPENAI_MAX_TOKENS'' a], Inl e)"
    by (simp add: run)
  have second: "\<forall>n e. ra = Inr n \<and> rb = Inl e \<longrightarrow>
            cell_prompt_helper h t =
              (t @ [Getenv ''OPENAI_MAX_TOKENS'' a, Getenv ''CHUNK_SIZE'' b], Inl e)"
    by (simp add: run)
  have third: "\<forall>n m e. ra = Inr n \<and> rb = Inr m \<and> rc = Inl e \<longrightarrow>
            cell_prompt_helper h t =
              (t @ [Getenv ''OPENAI_MAX_TOKENS'' a, Getenv ''CHUNK_SIZE'' b,
                    Getenv ''CHUNK_OVERLAP'' c], Inl e)"
    by (simp add: run)
  have all: "\<forall>n m k. ra = Inr n \<and> rb = Inr m \<and> rc = Inr k \<longrightarrow>
            cell_prompt_helper h t =
              call (Func ''PromptHelper'' [PInt m, PInt n, PInt k] []) h
                (t @ [Getenv ''OPENAI_MAX_TOKENS'' a, Getenv ''CHUNK_SIZE'' b,
                      Getenv ''CHUNK_OVERLAP'' c])"
    by (simp add: run)
  have none: "py_int None = (Inl TypeError :: 'x exn + int)"
    by (simp add: py_int_def)
  have errs: "\<forall>v e. py_int v = (Inl e :: 'x exn + int) \<longrightarrow>
            (v = None \<and> e = TypeError) \<or> (v \<noteq> None \<and> e = ValueError)"
    using py_int_errors by blast
  have lit: "\<forall>s n. py_int (Some s) = (Inr n :: 'x exn + int) \<longleftrightarrow> int_literal s n"
    by (simp add: py_int_literal)
  have nolit: "\<forall>s. py_int (Some s) = (Inl ValueError :: 'x exn + int)
                 \<longleftrightarrow> \<not> (\<exists>n. int_literal s n)"
    by (simp add: py_int_no_literal)
  have other: "\<forall>s ch. ch \<in> set s \<and> of_char ch < (128 :: nat)
              \<and> \<not> is_digit ch \<and> \<not> is_space ch \<and> ch \<notin> set ''+-_'' \<longrightarrow>
            py_int (Some s) = (Inl ValueError :: 'x exn + int)"
    using py_int_other_char by blast
  have digits: "\<forall>s. s \<noteq> [] \<and> list_all is_digit s \<longrightarrow>
            py_int (Some s) = (Inr (int (decimal s)) :: 'x exn + int)"
    using py_int_digits by blast
  show ?thesis
    by (intro conjI first second third all errs none lit nolit other digits py_int_examples)
qed

theorem prompt_helper_conversions_witness:
  "cell_prompt_helper demo_host [] =
     ([Getenv ''OPENAI_MAX_TOKENS'' (Some ''256''), Getenv ''CHUNK_SIZE'' (Some ''1024''),
       Getenv ''CHUNK_OVERLAP'' (Some ''20''),
       Call (Func ''PromptHelper'' [PInt 1024, PInt 256, PInt 20] []) (Inr 3)], Inr 3)
   \<and> cell_prompt_helper (demo_host\<lparr>environ := (environ demo_host)(''CHUNK_SIZE'' := None)\<rparr>) [] =
     ([Getenv ''OPENAI_MAX_TOKENS'' (Some ''256''), Getenv ''CHUNK_SIZE'' None], Inl TypeError)
   \<and> cell_prompt_helper
        (demo_host\<lparr>environ := (environ demo_host)(''CHUNK_OVERLAP'' := Some ''ten'')\<rparr>) [] =
     ([Getenv ''OPENAI_MAX_TOKENS'' (Some ''256''), Getenv ''CHUNK_SIZE'' (Some ''1024''),
       Getenv ''CHUNK_OVERLAP'' (Some ''ten'')], Inl ValueError)
   \<and> cell_prompt_helper
        (demo_host\<lparr>environ := (environ demo_host)
           (''CHUNK_SIZE'' := Some [CHR 0x1C, CHR ''5'', CHR 0x1F])\<rparr>) [] =
     ([Getenv ''OPENAI_MAX_TOKENS'' (Some ''256''),
       Getenv ''CHUNK_SIZE'' (Some [CHR 0x1C, CHR ''5'', CHR 0x1F])], Inl ValueError)
   \<and> int_literal ''1024'' 1024
   \<and> \<not> (\<exists>n. int_literal ''ten'' n)"
proof -
  let ?unset = "demo_host\<lparr>environ := (environ demo_host)(''CHUNK_SIZE'' := None)\<rparr>"
  let ?word = "demo_host\<lparr>environ := (environ demo_host)(''CHUNK_OVERLAP'' := Some ''ten'')\<rparr>"
  let ?sep = "demo_host\<lparr>environ := (environ demo_host)
                (''CHUNK_SIZE'' := Some [CHR 0x1C, CHR ''5'', CHR 0x1F])\<rparr>"
  have i: "py_int (Some ''256'') = (Inr 256 :: nat exn + int)"
    "py_int (Some ''1024'') = (Inr 1024 :: nat exn + int)"
    "py_int (Some ''20'') = (Inr 20 :: nat exn + int)"
    "py_int (Some ''ten'') = (Inl ValueError :: nat exn + int)"
    "py_int None = (Inl TypeError :: nat exn + int)"
    "py_int (Some [CHR 0x1C, CHR ''5'', CHR 0x1F]) = (Inl ValueError :: nat exn + int)"
    by (simp_all add: int_eval)
  have e: "environ demo_host ''OPENAI_MAX_TOKENS'' = Some ''256''"
    "environ demo_host ''CHUNK_SIZE'' = Some ''1024''"
    "environ demo_host ''CHUNK_OVERLAP'' = Some ''20''"
    by (simp_all add: demo_host_def demo_bindings_def)
  have u: "environ ?unset ''OPENAI_MAX_TOKENS'' = Some ''256''"
    "environ ?unset ''CHUNK_SIZE'' = None"
    "environ ?unset ''CHUNK_OVERLAP'' = Some ''20''"
    by (simp_all add: demo_host_def demo_bindings_def)
  have w: "environ ?word ''OPENAI_MAX_TOKENS'' = Some ''256''"
    "environ ?word ''CHUNK_SIZE'' = Some ''1024''"
    "environ ?word ''CHUNK_OVERLAP'' = Some ''ten''"
    by (simp_all add: demo_host_def demo_bindings_def)
  have s: "environ ?sep ''OPENAI_MAX_TOKENS'' = Some ''256''"
    "environ ?sep ''CHUNK_SIZE'' = Some [CHR 0x1C, CHR ''5'', CHR 0x1F]"
    "environ ?sep ''CHUNK_OVERLAP'' = Some ''20''"
    by (simp_all add: demo_host_def demo_bindings_def)
  note demo = prompt_helper_conversions [OF e(1) i(1) e(2) i(2) e(3) i(3), of "[]"]
  from demo [THEN conjunct2, THEN conjunct2, THEN conjunct2, THEN conjunct1]
  have "cell_prompt_helper demo_host [] =
          call (Func ''PromptHelper'' [PInt 1024, PInt 256, PInt 20] []) demo_host
            ([] @ [Getenv ''OPENAI_MAX_TOKENS'' (Some ''256''),
                   Getenv ''CHUNK_SIZE'' (Some ''1024''),
                   Getenv ''CHUNK_OVERLAP'' (Some ''20'')])"
    by simp
  then have a: "cell_prompt_helper demo_host [] =
     ([Getenv ''OPENAI_MAX_TOKENS'' (Some ''256''), Getenv ''CHUNK_SIZE'' (Some ''1024''),
       Getenv ''CHUNK_OVERLAP'' (Some ''20''),
       Call (Func ''PromptHelper'' [PInt 1024, PInt 256, PInt 20] []) (Inr 3)], Inr 3)"
    by (simp add: call_def demo_host_def)
  have "cell_prompt_helper ?unset [] =
     ([] @ [Getenv ''OPENAI_MAX_TOKENS'' (Some ''256''), Getenv ''CHUNK_SIZE'' None],
      Inl TypeError)"
    using prompt_helper_conversions
      [OF u(1) i(1) u(2) i(5) u(3) i(3), of "[]", THEN conjunct2, THEN conjunct1]
    by simp
  then have b: "cell_prompt_helper ?unset [] =
     ([Getenv ''OPENAI_MAX_TOKENS'' (Some ''256''), Getenv ''CHUNK_SIZE'' None], Inl TypeError)"
    by simp
  have "cell_prompt_helper ?word [] =
     ([] @ [Getenv ''OPENAI_MAX_TOKENS'' (Some ''256''), Getenv ''CHUNK_SIZE'' (Some ''1024''),
            Getenv ''CHUNK_OVERLAP'' (Some ''ten'')], Inl ValueError)"
    using prompt_helper_conversions
      [OF w(1) i(1) w(2) i(2) w(3) i(4), of "[]", THEN conjunct2, THEN conjunct2, THEN conjunct1]
    by simp
  then have c: "cell_prompt_helper ?word [] =
     ([Getenv ''OPENAI_MAX_TOKENS'' (Some ''256''), Getenv ''CHUNK_SIZE'' (Some ''1024''),
       Getenv ''CHUNK_OVERLAP'' (Some ''ten'')], Inl ValueError)"
    by simp
  have "cell_prompt_helper ?sep [] =
     ([] @ [Getenv ''OPENAI_MAX_TOKENS'' (Some ''256''),
            Getenv ''CHUNK_SIZE'' (Some [CHR 0x1C, CHR ''5'', CHR 0x1F])], Inl ValueError)"
    using prompt_helper_conversions
      [OF s(1) i(1) s(2) i(6) s(3) i(3), of "[]", THEN conjunct2, THEN conjunct1]
    by simp
  then have d: "cell_prompt_helper ?sep [] =
     ([Getenv ''OPENAI_MAX_TOKENS'' (Some ''256''),
       Getenv ''CHUNK_SIZE'' (Some [CHR 0x1C, CHR ''5'', CHR 0x1F])], Inl ValueError)"
    by simp
  note rest = demo [THEN conjunct2, THEN conjunct2, THEN conjunct2, THEN conjunct2,
    THEN conjunct2, THEN conjunct2]
  from rest [THEN conjunct1] i(2) have f: "int_literal ''1024'' 1024" by simp
  from rest [THEN conjunct2, THEN conjunct1] i(4) have g: "\<not> (\<exists>n. int_literal ''ten'' n)"
    by simp
  from a b c d f g show ?thesis by (intro conjI)
qed


section \<open>A missing API key\<close>







end
